theory Spec2Isabelle
  imports Main "HOL-Library.Word"
begin

unbundle bit_operations_syntax

section \<open>Common values\<close>

type_synonym byte = "8 word"
type_synonym uint32 = "32 word"

text \<open>
  Go errors. \<open>ErrorString\<close> is an error made by \<open>fmt.Errorf\<close> without \<open>%w\<close>;
  \<open>WrapError p e\<close> is \<open>fmt.Errorf(p + ": %w", e)\<close>; the others are the sentinel errors of
  \<open>io\<close>, \<open>context\<close> and the worker package's \<open>PoolError\<close>.
\<close>

datatype error =
    ErrorString string
  | WrapError string error
  | EOF
  | ErrUnexpectedEOF
  | ContextCanceled
  | DeadlineExceeded
  | PoolError string

text \<open>The method \<open>Error()\<close> of an error value.\<close>

fun ErrorText :: "error \<Rightarrow> string" where
  "ErrorText (ErrorString s) = s"
| "ErrorText (WrapError p e) = p @ '': '' @ ErrorText e"
| "ErrorText EOF = ''EOF''"
| "ErrorText ErrUnexpectedEOF = ''unexpected EOF''"
| "ErrorText ContextCanceled = ''context canceled''"
| "ErrorText DeadlineExceeded = ''context deadline exceeded''"
| "ErrorText (PoolError m) = m"

text \<open>The verb \<open>%d\<close> of \<open>fmt\<close>: decimal digits, with a sign for negative numbers.\<close>

fun digits :: "nat \<Rightarrow> string" where
  "digits n =
     (if n < 10 then [''0123456789'' ! n]
      else digits (n div 10) @ [''0123456789'' ! (n mod 10)])"

declare digits.simps [simp del]

definition itoa :: "int \<Rightarrow> string" where
  "itoa i = (if i < 0 then CHR ''-'' # digits (nat (- i)) else digits (nat i))"

text \<open>What a function call does: it returns, or the goroutine panics.\<close>

datatype 'a outcome = Returns 'a | Panics string


section \<open>Wire codec (pkg/protocol/protocol.go)\<close>

definition MessageTypeRequest :: byte where "MessageTypeRequest = 0x01"
definition MessageTypeResponse :: byte where "MessageTypeResponse = 0x02"
definition MessageTypeError :: byte where "MessageTypeError = 0x03"
definition MessageTypePing :: byte where "MessageTypePing = 0x04"
definition MessageTypePong :: byte where "MessageTypePong = 0x05"

definition HeaderSize :: nat where "HeaderSize = 8"
definition MaxMessageSize :: nat where "MaxMessageSize = 10 * 1024 * 1024"
definition ProtocolVersion :: byte where "ProtocolVersion = 0x01"

record Message =
  Version :: byte
  Type :: byte
  Length :: uint32
  Data :: "byte list"

text \<open>
  \<open>binary.BigEndian.PutUint32(b[off:off+4], v)\<close> writes four bytes of the buffer in place,
  and \<open>binary.BigEndian.Uint32(b)\<close> reads them back.
\<close>

definition PutUint32 :: "byte list \<Rightarrow> nat \<Rightarrow> uint32 \<Rightarrow> byte list" where
  "PutUint32 b off v =
     b[off := ucast (drop_bit 24 v),
       off + 1 := ucast (drop_bit 16 v),
       off + 2 := ucast (drop_bit 8 v),
       off + 3 := ucast v]"

definition Uint32 :: "byte list \<Rightarrow> uint32" where
  "Uint32 b =
     (ucast (b ! 3) OR push_bit 8 (ucast (b ! 2)) OR push_bit 16 (ucast (b ! 1))
        OR push_bit 24 (ucast (b ! 0)))"

text \<open>
  The builtin \<open>copy(dst[off:], src)\<close>: it copies \<open>min(len(dst) - off, len(src))\<close> bytes.
\<close>

definition copy_into :: "byte list \<Rightarrow> nat \<Rightarrow> byte list \<Rightarrow> byte list" where
  "copy_into dst off src =
     (let n = min (length dst - off) (length src)
      in take off dst @ take n src @ drop (off + n) dst)"

definition EncodeMessage :: "byte \<Rightarrow> byte list \<Rightarrow> error + byte list" where
  "EncodeMessage msgType data =
     (let dataLen = length data in
      if dataLen > MaxMessageSize then
        Inl (ErrorString (''message size '' @ itoa (int dataLen) @ '' exceeds maximum ''
               @ itoa (int MaxMessageSize)))
      else
        let msg = replicate (HeaderSize + dataLen) 0;
            msg = msg[0 := ProtocolVersion];
            msg = msg[1 := msgType];
            msg = PutUint32 msg 2 (of_nat dataLen);
            msg = (if dataLen > 0 then copy_into msg HeaderSize data else msg)
        in Inr msg)"

text \<open>
  An \<open>io.Reader\<close> over a byte stream is the list of the bytes not yet read; the stream is
  at EOF after them. \<open>io.ReadFull(reader, buf)\<close> with \<open>len(buf) = n\<close> returns the bytes
  and the reader after them, or \<open>EOF\<close> when no byte was left and \<open>ErrUnexpectedEOF\<close> when
  the stream ended after some.
\<close>

definition ReadFull :: "byte list \<Rightarrow> nat \<Rightarrow> (error + byte list) \<times> byte list" where
  "ReadFull reader n =
     (if n \<le> length reader then (Inr (take n reader), drop n reader)
      else if reader = [] then (Inl EOF, [])
      else (Inl ErrUnexpectedEOF, []))"

text \<open>
  \<open>DecodeMessage\<close> returns the message or the error, the reader after the call, and the
  size of the payload buffer it allocated with \<open>make([]byte, msg.Length)\<close> (0 when it
  made none).
\<close>

definition DecodeMessage :: "byte list \<Rightarrow> (error + Message) \<times> byte list \<times> nat" where
  "DecodeMessage reader =
     (case ReadFull reader HeaderSize of
        (Inl err, reader') \<Rightarrow> (Inl (WrapError ''failed to read header'' err), reader', 0)
      | (Inr header, reader') \<Rightarrow>
          let msg = \<lparr>Version = header ! 0, Type = header ! 1,
                     Length = Uint32 (take 4 (drop 2 header)), Data = []\<rparr> in
          if Version msg \<noteq> ProtocolVersion then
            (Inl (ErrorString (''unsupported protocol version: '' @ itoa (uint (Version msg)))),
             reader', 0)
          else if unat (Length msg) > MaxMessageSize then
            (Inl (ErrorString (''message size '' @ itoa (uint (Length msg))
                    @ '' exceeds maximum '' @ itoa (int MaxMessageSize))),
             reader', 0)
          else if Length msg > 0 then
            (case ReadFull reader' (unat (Length msg)) of
               (Inl err, reader'') \<Rightarrow>
                 (Inl (WrapError ''failed to read message data'' err), reader'',
                  unat (Length msg))
             | (Inr data, reader'') \<Rightarrow>
                 (Inr (msg\<lparr>Data := data\<rparr>), reader'', unat (Length msg)))
          else (Inr msg, reader', 0))"


section \<open>Models (package models)\<close>

type_synonym RequestStatus = string

definition StatusPending :: RequestStatus where "StatusPending = ''pending''"
definition StatusSending :: RequestStatus where "StatusSending = ''sending''"
definition StatusSent :: RequestStatus where "StatusSent = ''sent''"
definition StatusFailed :: RequestStatus where "StatusFailed = ''failed''"
definition StatusComplete :: RequestStatus where "StatusComplete = ''complete''"

text \<open>A row of the staging table. Timestamps are readings of a clock, as numbers.\<close>

record UnsendData =
  ID :: int
  ClientPort :: int
  BinaryData :: "byte list"
  Status :: RequestStatus
  CreatedAt :: nat
  UpdatedAt :: nat
  RetryCount :: int
  LastError :: "string option"

record APIResponse =
  resp_RequestID :: int
  resp_StatusCode :: int
  resp_ResponseBody :: string
  resp_CreatedAt :: nat

record ProcessingJob =
  job_Request :: UnsendData
  job_RetryCount :: int
  SubmittedAt :: nat

record ProcessingResult =
  res_RequestID :: int
  res_ClientPort :: int
  Success :: bool
  Response :: "byte list"
  Error :: "error option"

text \<open>A decoded JSON value (\<open>interface{}\<close> after \<open>json.Unmarshal\<close>).\<close>

datatype jvalue =
    JNull
  | JBool bool
  | JNumber int
  | JString string
  | JArray "jvalue list"
  | JObject "(string \<times> jvalue) list"

record APIRequest =
  req_RequestID :: string
  req_Timestamp :: nat
  req_ClientPort :: int
  req_Data :: "(string \<times> jvalue) list"

text \<open>\<open>pl_Data\<close> is \<open>None\<close> for a nil map.\<close>

record APIResponsePayload =
  pl_RequestID :: string
  pl_Status :: string
  pl_StatusCode :: int
  pl_Message :: string
  pl_Data :: "(string \<times> jvalue) list option"
  pl_Timestamp :: string

record ConnectionInfo =
  Port :: int
  RemoteAddr :: string
  ConnectedAt :: nat
  LastActive :: nat
  MessagesSent :: int
  MessagesReceived :: int


section \<open>The environment of a run\<close>

text \<open>
  The statements the repository sends to the database, and a network connection as a handle.
\<close>

datatype statement =
    SelectPending int
  | UpdateStatus int RequestStatus "string option"
  | IncrementRetry int
  | InsertResponse int int string
  | DeleteRequest int
  | InsertRequest int "byte list"

type_synonym conn = nat

record http_response =
  http_StatusCode :: int
  http_Body :: "error + string"

text \<open>
  Everything the code gets from outside a run is a field of the environment: the clock,
  the errors of the database driver, the rows other transactions hold locked, the socket
  writes, the HTTP exchanges (by attempt number), whether the context is done when a retry
  wait ends, and the functions of \<open>encoding/json\<close> and \<open>encoding/base64\<close>.
\<close>

record Env =
  now :: nat
  db_fault :: "statement \<Rightarrow> error option"
  scan_fault :: "UnsendData \<Rightarrow> error option"
  rows_err :: "error option"
  rows_affected_fault :: "error option"
  row_locked :: "int \<Rightarrow> bool"
  conn_Write :: "conn \<Rightarrow> byte list \<Rightarrow> error option"
  json_Marshal_request :: "APIRequest \<Rightarrow> error + string"
  new_request_fault :: "error option"
  http_Do :: "nat \<Rightarrow> error + http_response"
  ctx_done_in_wait :: "nat \<Rightarrow> error option"
  json_Unmarshal_payload :: "string \<Rightarrow> error + APIResponsePayload"
  json_Unmarshal_object :: "byte list \<Rightarrow> (string \<times> jvalue) list option"
  json_Marshal_payload :: "APIResponsePayload \<Rightarrow> error + byte list"
  base64_EncodeToString :: "byte list \<Rightarrow> string"
  base64_DecodeString :: "string \<Rightarrow> error + byte list"


section \<open>Work repository (package database)\<close>

text \<open>
  The two tables, and the list of the statements sent to the database so far (each call
  of \<open>ExecContext\<close> or \<open>QueryContext\<close>, whether the driver reported an error or not).
\<close>

record Database =
  unsend_data :: "UnsendData list"
  api_responses :: "APIResponse list"
  next_id :: int
  executed :: "statement list"

definition exec :: "Database \<Rightarrow> statement \<Rightarrow> Database" where
  "exec db stmt = db\<lparr>executed := executed db @ [stmt]\<rparr>"

text \<open>
  The loop over \<open>rows.Next()\<close>: each row is scanned and appended; a scan error returns at
  once.
\<close>

fun scan_rows :: "Env \<Rightarrow> UnsendData list \<Rightarrow> UnsendData list \<Rightarrow> error + UnsendData list" where
  "scan_rows env [] requests = Inr requests"
| "scan_rows env (row # rows) requests =
     (case scan_fault env row of
        Some err \<Rightarrow> Inl (WrapError ''failed to scan request'' err)
      | None \<Rightarrow> scan_rows env rows (requests @ [row]))"

text \<open>
  The rows the query of \<open>FetchPendingRequests\<close> selects:
  \<open>WHERE status = :1 ORDER BY created_at ASC FETCH FIRST :2 ROWS ONLY FOR UPDATE SKIP LOCKED\<close>
  with \<open>:1 = StatusPending\<close> and \<open>:2 = limit\<close>.
\<close>

definition select_pending :: "Env \<Rightarrow> UnsendData list \<Rightarrow> int \<Rightarrow> UnsendData list" where
  "select_pending env tbl limit =
     take (nat limit)
       (sort_key CreatedAt
          (filter (\<lambda>r. Status r = StatusPending \<and> \<not> row_locked env (ID r)) tbl))"

definition FetchPendingRequests ::
  "Env \<Rightarrow> Database \<Rightarrow> int \<Rightarrow> (error + UnsendData list) \<times> Database" where
  "FetchPendingRequests env db limit =
     (let db' = exec db (SelectPending limit) in
      case db_fault env (SelectPending limit) of
        Some err \<Rightarrow> (Inl (WrapError ''failed to fetch pending requests'' err), db')
      | None \<Rightarrow>
          (case scan_rows env (select_pending env (unsend_data db) limit) [] of
             Inl err \<Rightarrow> (Inl err, db')
           | Inr requests \<Rightarrow>
               (case rows_err env of
                  Some err \<Rightarrow> (Inl (WrapError ''error iterating rows'' err), db')
                | None \<Rightarrow> (Inr requests, db'))))"

text \<open>
  \<open>UPDATE ... SET status = :1, updated_at = :2, last_error = :3 WHERE id = :4\<close>; a nil
  \<open>errorMsg\<close> is bound as NULL.
\<close>

definition UpdateRequestStatus ::
  "Env \<Rightarrow> Database \<Rightarrow> int \<Rightarrow> RequestStatus \<Rightarrow> string option \<Rightarrow> error option \<times> Database" where
  "UpdateRequestStatus env db requestID status errorMsg =
     (let db' = exec db (UpdateStatus requestID status errorMsg) in
      case db_fault env (UpdateStatus requestID status errorMsg) of
        Some err \<Rightarrow> (Some (WrapError ''failed to update request status'' err), db')
      | None \<Rightarrow>
          (None,
           db'\<lparr>unsend_data :=
                 map (\<lambda>r. if ID r = requestID
                           then r\<lparr>Status := status, UpdatedAt := now env, LastError := errorMsg\<rparr>
                           else r)
                   (unsend_data db')\<rparr>))"

text \<open>\<open>UPDATE ... SET retry_count = retry_count + 1, updated_at = :1 WHERE id = :2\<close>\<close>

definition IncrementRetryCount :: "Env \<Rightarrow> Database \<Rightarrow> int \<Rightarrow> error option \<times> Database" where
  "IncrementRetryCount env db requestID =
     (let db' = exec db (IncrementRetry requestID) in
      case db_fault env (IncrementRetry requestID) of
        Some err \<Rightarrow> (Some (WrapError ''failed to increment retry count'' err), db')
      | None \<Rightarrow>
          (None,
           db'\<lparr>unsend_data :=
                 map (\<lambda>r. if ID r = requestID
                           then r\<lparr>RetryCount := RetryCount r + 1, UpdatedAt := now env\<rparr>
                           else r)
                   (unsend_data db')\<rparr>))"

definition InsertAPIResponse :: "Env \<Rightarrow> Database \<Rightarrow> APIResponse \<Rightarrow> error option \<times> Database" where
  "InsertAPIResponse env db response =
     (let stmt = InsertResponse (resp_RequestID response) (resp_StatusCode response)
                   (resp_ResponseBody response);
          db' = exec db stmt in
      case db_fault env stmt of
        Some err \<Rightarrow> (Some (WrapError ''failed to insert API response'' err), db')
      | None \<Rightarrow> (None, db'\<lparr>api_responses := api_responses db' @ [response]\<rparr>))"

text \<open>\<open>DELETE FROM ... WHERE id = :1\<close>, then the check of \<open>RowsAffected\<close>.\<close>

definition DeleteProcessedRequest :: "Env \<Rightarrow> Database \<Rightarrow> int \<Rightarrow> error option \<times> Database" where
  "DeleteProcessedRequest env db requestID =
     (let db' = exec db (DeleteRequest requestID) in
      case db_fault env (DeleteRequest requestID) of
        Some err \<Rightarrow> (Some (WrapError ''failed to delete processed request'' err), db')
      | None \<Rightarrow>
          (let rows = length (filter (\<lambda>r. ID r = requestID) (unsend_data db'));
               db'' = db'\<lparr>unsend_data := filter (\<lambda>r. ID r \<noteq> requestID) (unsend_data db')\<rparr> in
           case rows_affected_fault env of
             Some err \<Rightarrow> (Some (WrapError ''failed to get rows affected'' err), db'')
           | None \<Rightarrow>
               if rows = 0 then
                 (Some (ErrorString (''no request found with id '' @ itoa requestID)), db'')
               else (None, db'')))"

text \<open>
  \<open>INSERT ... RETURNING id INTO :7\<close>; the table's key comes from the database (a sequence
  or a trigger), here the counter \<open>next_id\<close>.
\<close>

definition InsertRequest_row ::
  "Env \<Rightarrow> Database \<Rightarrow> int \<Rightarrow> byte list \<Rightarrow> (error + int) \<times> Database" where
  "InsertRequest_row env db clientPort binaryData =
     (let db' = exec db (InsertRequest clientPort binaryData) in
      case db_fault env (InsertRequest clientPort binaryData) of
        Some err \<Rightarrow> (Inl (WrapError ''failed to insert request'' err), db')
      | None \<Rightarrow>
          (Inr (next_id db'),
           db'\<lparr>unsend_data := unsend_data db' @
                   [\<lparr>ID = next_id db', ClientPort = clientPort, BinaryData = binaryData,
                     Status = StatusPending, CreatedAt = now env, UpdatedAt = now env,
                     RetryCount = 0, LastError = None\<rparr>],
                next_id := next_id db' + 1\<rparr>))"

definition MarkAsSending :: "Env \<Rightarrow> Database \<Rightarrow> int \<Rightarrow> error option \<times> Database" where
  "MarkAsSending env db requestID = UpdateRequestStatus env db requestID StatusSending None"

definition MarkAsComplete :: "Env \<Rightarrow> Database \<Rightarrow> int \<Rightarrow> error option \<times> Database" where
  "MarkAsComplete env db requestID = UpdateRequestStatus env db requestID StatusComplete None"

definition MarkAsFailed :: "Env \<Rightarrow> Database \<Rightarrow> int \<Rightarrow> string \<Rightarrow> error option \<times> Database" where
  "MarkAsFailed env db requestID errorMsg =
     UpdateRequestStatus env db requestID StatusFailed (Some errorMsg)"

definition GetPendingCount :: "Env \<Rightarrow> Database \<Rightarrow> int" where
  "GetPendingCount env db = int (length (filter (\<lambda>r. Status r = StatusPending) (unsend_data db)))"


section \<open>Connection registry (package server, ConnectionManager)\<close>

text \<open>
  The two maps of the manager, and the connections closed so far (each call of
  \<open>conn.Close()\<close>, in order).
\<close>

record ConnectionManager =
  connections :: "int \<rightharpoonup> conn"
  connInfo :: "int \<rightharpoonup> ConnectionInfo"
  closed_conns :: "conn list"

definition NewConnectionManager :: ConnectionManager where
  "NewConnectionManager = \<lparr>connections = Map.empty, connInfo = Map.empty, closed_conns = []\<rparr>"

definition Register ::
  "Env \<Rightarrow> ConnectionManager \<Rightarrow> int \<Rightarrow> conn \<Rightarrow> string \<Rightarrow> error option \<times> ConnectionManager" where
  "Register env cm port c remoteAddr =
     (case connections cm port of
        Some _ \<Rightarrow> (Some (ErrorString (''port '' @ itoa port @ '' already registered'')), cm)
      | None \<Rightarrow>
          (None,
           cm\<lparr>connections := (connections cm)(port \<mapsto> c),
              connInfo := (connInfo cm)(port \<mapsto>
                \<lparr>Port = port, RemoteAddr = remoteAddr, ConnectedAt = now env,
                 LastActive = now env, MessagesSent = 0, MessagesReceived = 0\<rparr>)\<rparr>))"

definition Unregister :: "ConnectionManager \<Rightarrow> int \<Rightarrow> ConnectionManager" where
  "Unregister cm port =
     (case connections cm port of
        Some c \<Rightarrow>
          cm\<lparr>closed_conns := closed_conns cm @ [c],
             connections := (connections cm)(port := None),
             connInfo := (connInfo cm)(port := None)\<rparr>
      | None \<Rightarrow> cm)"

definition GetConnection :: "ConnectionManager \<Rightarrow> int \<Rightarrow> conn option" where
  "GetConnection cm port = connections cm port"

definition SendData ::
  "Env \<Rightarrow> ConnectionManager \<Rightarrow> int \<Rightarrow> byte list \<Rightarrow> error option \<times> ConnectionManager" where
  "SendData env cm port data =
     (case GetConnection cm port of
        None \<Rightarrow> (Some (ErrorString (''no connection found for port '' @ itoa port)), cm)
      | Some c \<Rightarrow>
          let cm1 = (case connInfo cm port of
                       Some info \<Rightarrow>
                         cm\<lparr>connInfo := (connInfo cm)(port \<mapsto>
                              info\<lparr>MessagesSent := MessagesSent info + 1,
                                   LastActive := now env\<rparr>)\<rparr>
                     | None \<Rightarrow> cm) in
          (case conn_Write env c data of
             Some err \<Rightarrow>
               (Some (WrapError (''failed to send data to port '' @ itoa port) err),
                Unregister cm1 port)
           | None \<Rightarrow> (None, cm1)))"


section \<open>Payload transformer (package transformer)\<close>

definition ValidateBinaryData :: "byte list \<Rightarrow> error option" where
  "ValidateBinaryData binaryData =
     (if length binaryData = 0 then Some (ErrorString ''binary data is empty'')
      else if length binaryData > 10 * 1024 * 1024 then
        Some (ErrorString (''binary data exceeds maximum size: ''
                @ itoa (int (length binaryData)) @ '' bytes''))
      else None)"

definition parseBinaryData :: "Env \<Rightarrow> byte list \<Rightarrow> error + (string \<times> jvalue) list" where
  "parseBinaryData env binaryData =
     (if length binaryData < 4 then
        Inl (ErrorString (''binary data too short: '' @ itoa (int (length binaryData))
               @ '' bytes''))
      else
        let result = [(''binary_data'', JString (base64_EncodeToString env binaryData)),
                      (''data_length'', JNumber (int (length binaryData)))] in
        case json_Unmarshal_object env binaryData of
          Some jsonData \<Rightarrow> Inr jsonData
        | None \<Rightarrow>
            Inr (result @ [(''encoding'', JString ''base64''), (''format'', JString ''binary'')]))"

definition BinaryToAPIRequest :: "Env \<Rightarrow> int \<Rightarrow> int \<Rightarrow> byte list \<Rightarrow> error + APIRequest" where
  "BinaryToAPIRequest env requestID clientPort binaryData =
     (if length binaryData = 0 then Inl (ErrorString ''binary data is empty'')
      else
        case parseBinaryData env binaryData of
          Inl err \<Rightarrow> Inl (WrapError ''failed to parse binary data'' err)
        | Inr data \<Rightarrow>
            Inr \<lparr>req_RequestID = itoa requestID, req_Timestamp = now env,
                 req_ClientPort = clientPort, req_Data = data\<rparr>)"

definition marshal_with_length :: "Env \<Rightarrow> APIResponsePayload \<Rightarrow> error + byte list" where
  "marshal_with_length env response =
     (case json_Marshal_payload env response of
        Inl err \<Rightarrow> Inl (WrapError ''failed to marshal response to JSON'' err)
      | Inr jsonData \<Rightarrow>
          let binaryData = replicate (4 + length jsonData) 0;
              binaryData = PutUint32 binaryData 0 (of_nat (length jsonData));
              binaryData = copy_into binaryData 4 jsonData
          in Inr binaryData)"

text \<open>
  \<open>encodeToBinary\<close>: the base64 field of the reply when it has one, else the reply as JSON
  behind a 4-byte length (\<open>marshal_with_length\<close>, the rest of the function's body).
\<close>

definition encodeToBinary :: "Env \<Rightarrow> APIResponsePayload \<Rightarrow> error + byte list" where
  "encodeToBinary env response =
     (case pl_Data response of
        Some data \<Rightarrow>
          (case map_of data ''binary_data'' of
             Some (JString binaryStr) \<Rightarrow>
               (case base64_DecodeString env binaryStr of
                  Inl err \<Rightarrow> Inl (WrapError ''failed to decode base64 data'' err)
                | Inr decoded \<Rightarrow> Inr decoded)
           | _ \<Rightarrow> marshal_with_length env response)
      | None \<Rightarrow> marshal_with_length env response)"

text \<open>A \<open>*models.APIResponsePayload\<close> is an option: \<open>None\<close> is the nil pointer.\<close>

definition APIResponseToBinary :: "Env \<Rightarrow> APIResponsePayload option \<Rightarrow> error + byte list" where
  "APIResponseToBinary env response =
     (case response of
        None \<Rightarrow> Inl (ErrorString ''API response is nil'')
      | Some r \<Rightarrow>
          (case encodeToBinary env r of
             Inl err \<Rightarrow> Inl (WrapError ''failed to encode to binary'' err)
           | Inr binaryData \<Rightarrow> Inr binaryData))"

definition ValidateAPIResponse :: "APIResponsePayload option \<Rightarrow> error option" where
  "ValidateAPIResponse response =
     (case response of
        None \<Rightarrow> Some (ErrorString ''API response is nil'')
      | Some r \<Rightarrow>
          if pl_RequestID r = [] then Some (ErrorString ''API response missing request_id'')
          else if pl_Status r = [] then Some (ErrorString ''API response missing status'')
          else None)"


section \<open>Upstream client (package api)\<close>

text \<open>
  The retry settings of \<open>config.APIConfig\<close>. A \<open>time.Duration\<close> is an \<open>int64\<close> number of
  nanoseconds, and Go's \<open>int\<close> has 64 bits on the platforms the repository builds for.
  \<open>int64 x\<close> is the value an integer has as an \<open>int64\<close> (two's complement), and
  \<open>Duration_mul\<close> is the product of two durations, which wraps around.
\<close>

definition int64 :: "int \<Rightarrow> int" where
  "int64 x = (x + 2 ^ 63) mod 2 ^ 64 - 2 ^ 63"

definition Duration_mul :: "int \<Rightarrow> int \<Rightarrow> int" where
  "Duration_mul d n = int64 (d * n)"


record APIConfig =
  BaseURL :: string
  Timeout :: int
  MaxRetries :: int
  RetryDelay :: int

text \<open>What the client does on the network, in order: a wait of a duration, an attempt.\<close>

datatype api_event = Wait int | Attempt nat

text \<open>
  \<open>sendRequestOnce\<close>; \<open>attempt\<close> says which exchange of the environment answers
  \<open>httpClient.Do\<close>.
\<close>

definition sendRequestOnce :: "Env \<Rightarrow> nat \<Rightarrow> string \<Rightarrow> error + APIResponsePayload" where
  "sendRequestOnce env attempt requestBody =
     (case new_request_fault env of
        Some err \<Rightarrow> Inl (WrapError ''failed to create HTTP request'' err)
      | None \<Rightarrow>
          (case http_Do env attempt of
             Inl err \<Rightarrow> Inl (WrapError ''HTTP request failed'' err)
           | Inr resp \<Rightarrow>
               (case http_Body resp of
                  Inl err \<Rightarrow> Inl (WrapError ''failed to read response body'' err)
                | Inr responseBody \<Rightarrow>
                    if http_StatusCode resp < 200 \<or> http_StatusCode resp \<ge> 300 then
                      Inl (ErrorString (''API returned error status ''
                             @ itoa (http_StatusCode resp) @ '': '' @ responseBody))
                    else
                      (case json_Unmarshal_payload env responseBody of
                         Inl err \<Rightarrow> Inl (WrapError ''failed to unmarshal response'' err)
                       | Inr apiResponse \<Rightarrow> Inr apiResponse))))"

text \<open>
  The error returned after the loop; \<open>lastErr\<close> is nil when the loop body never ran.
\<close>

definition failed_after :: "APIConfig \<Rightarrow> error option \<Rightarrow> error" where
  "failed_after cfg lastErr =
     (case lastErr of
        Some err \<Rightarrow>
          WrapError (''API request failed after '' @ itoa (MaxRetries cfg + 1) @ '' attempts'') err
      | None \<Rightarrow>
          ErrorString (''API request failed after '' @ itoa (MaxRetries cfg + 1)
            @ '' attempts: %!w(<nil>)''))"

text \<open>
  The loop \<open>for attempt := 0; attempt <= MaxRetries; attempt++\<close> over the values of
  \<open>attempt\<close> still to come, with \<open>lastErr\<close> and the events so far. The wait before a
  retry is \<open>c.config.RetryDelay * time.Duration(attempt)\<close>. The values of \<open>attempt\<close> are
  \<open>0, ..., MaxRetries\<close> as long as \<open>attempt++\<close> does not wrap, that is for
  \<open>MaxRetries < 2 ^ 63 - 1\<close>.
\<close>

fun retry_loop ::
  "Env \<Rightarrow> APIConfig \<Rightarrow> string \<Rightarrow> int list \<Rightarrow> error option \<Rightarrow> api_event list
     \<Rightarrow> (error + APIResponsePayload) \<times> api_event list" where
  "retry_loop env cfg requestBody [] lastErr evs = (Inl (failed_after cfg lastErr), evs)"
| "retry_loop env cfg requestBody (attempt # rest) lastErr evs =
     (case (if attempt > 0 then ctx_done_in_wait env (nat attempt) else None) of
        Some ctxErr \<Rightarrow> (Inl ctxErr, evs)
      | None \<Rightarrow>
          let evs1 = (if attempt > 0
                      then evs @ [Wait (Duration_mul (RetryDelay cfg) attempt)] else evs);
              evs2 = evs1 @ [Attempt (nat attempt)] in
          (case sendRequestOnce env (nat attempt) requestBody of
             Inr response \<Rightarrow> (Inr response, evs2)
           | Inl err \<Rightarrow> retry_loop env cfg requestBody rest (Some err) evs2))"

definition SendRequest ::
  "Env \<Rightarrow> APIConfig \<Rightarrow> APIRequest \<Rightarrow> (error + APIResponsePayload) \<times> api_event list" where
  "SendRequest env cfg request =
     (case json_Marshal_request env request of
        Inl err \<Rightarrow> (Inl (WrapError ''failed to marshal request'' err), [])
      | Inr requestBody \<Rightarrow> retry_loop env cfg requestBody [0..MaxRetries cfg] None [])"


section \<open>Job processor (internal/worker/processor.go)\<close>

text \<open>What a run of the processor changes: the database, the registry, the network.\<close>

record State =
  st_db :: Database
  st_cm :: ConnectionManager
  st_api :: "api_event list"

text \<open>
  \<open>handleError\<close>: both database errors are logged and dropped, and the second statement is
  sent whatever the first one did.
\<close>

definition handleError :: "Env \<Rightarrow> Database \<Rightarrow> int \<Rightarrow> error \<Rightarrow> Database" where
  "handleError env db requestID err =
     (let errorMsg = ErrorText err;
          (dbErr, db1) = MarkAsFailed env db requestID errorMsg;
          (dbErr', db2) = IncrementRetryCount env db1 requestID
      in db2)"

definition sendToClient ::
  "Env \<Rightarrow> ConnectionManager \<Rightarrow> int \<Rightarrow> byte list \<Rightarrow> error option \<times> ConnectionManager" where
  "sendToClient env cm clientPort data =
     (case EncodeMessage MessageTypeResponse data of
        Inl err \<Rightarrow> (Some (WrapError ''failed to encode message'' err), cm)
      | Inr message \<Rightarrow>
          (case SendData env cm clientPort message of
             (Some err, cm') \<Rightarrow> (Some (WrapError ''connection manager send failed'' err), cm')
           | (None, cm') \<Rightarrow> (None, cm')))"

text \<open>
  The three lines every failing step of \<open>Process\<close> ends with:
  \<open>result.Error = err; p.handleError(ctx, request.ID, result.Error); return result\<close>.
\<close>

definition fail_with ::
  "Env \<Rightarrow> ProcessingResult \<Rightarrow> State \<Rightarrow> int \<Rightarrow> error \<Rightarrow> ProcessingResult \<times> State" where
  "fail_with env result st requestID err =
     (result\<lparr>Error := Some err\<rparr>, st\<lparr>st_db := handleError env (st_db st) requestID err\<rparr>)"

definition Process ::
  "Env \<Rightarrow> APIConfig \<Rightarrow> State \<Rightarrow> UnsendData \<Rightarrow> ProcessingResult \<times> State" where
  "Process env cfg st request =
     (let result = \<lparr>res_RequestID = ID request, res_ClientPort = ClientPort request,
                    Success = False, Response = [], Error = None\<rparr> in
      case MarkAsSending env (st_db st) (ID request) of
        (Some err, db1) \<Rightarrow>
          fail_with env result (st\<lparr>st_db := db1\<rparr>) (ID request)
            (WrapError ''failed to mark as sending'' err)
      | (None, db1) \<Rightarrow>
     (let st1 = st\<lparr>st_db := db1\<rparr> in
      case ValidateBinaryData (BinaryData request) of
        Some err \<Rightarrow>
          fail_with env result st1 (ID request) (WrapError ''invalid binary data'' err)
      | None \<Rightarrow>
     (case BinaryToAPIRequest env (ID request) (ClientPort request) (BinaryData request) of
        Inl err \<Rightarrow>
          fail_with env result st1 (ID request)
            (WrapError ''failed to convert to API request'' err)
      | Inr apiRequest \<Rightarrow>
     (case SendRequest env cfg apiRequest of
        (Inl err, evs) \<Rightarrow>
          fail_with env result (st1\<lparr>st_api := st_api st1 @ evs\<rparr>) (ID request)
            (WrapError ''API request failed'' err)
      | (Inr apiResponse, evs) \<Rightarrow>
     (let st2 = st1\<lparr>st_api := st_api st1 @ evs\<rparr> in
      case ValidateAPIResponse (Some apiResponse) of
        Some err \<Rightarrow>
          fail_with env result st2 (ID request) (WrapError ''invalid API response'' err)
      | None \<Rightarrow>
     (let dbResponse = \<lparr>resp_RequestID = ID request,
                        resp_StatusCode = pl_StatusCode apiResponse,
                        resp_ResponseBody = pl_Message apiResponse,
                        resp_CreatedAt = now env\<rparr>;
          (insErr, db2) = InsertAPIResponse env (st_db st2) dbResponse;
          st3 = st2\<lparr>st_db := db2\<rparr> in
      case APIResponseToBinary env (Some apiResponse) of
        Inl err \<Rightarrow>
          fail_with env result st3 (ID request)
            (WrapError ''failed to convert response to binary'' err)
      | Inr binaryResponse \<Rightarrow>
     (let result1 = result\<lparr>Response := binaryResponse\<rparr> in
      case sendToClient env (st_cm st3) (ClientPort request) binaryResponse of
        (Some err, cm1) \<Rightarrow>
          fail_with env result1 (st3\<lparr>st_cm := cm1\<rparr>) (ID request)
            (WrapError ''failed to send response to client'' err)
      | (None, cm1) \<Rightarrow>
     (let st4 = st3\<lparr>st_cm := cm1\<rparr>;
          (complErr, db3) = MarkAsComplete env (st_db st4) (ID request);
          (delErr, db4) = DeleteProcessedRequest env db3 (ID request)
      in (result1\<lparr>Success := True\<rparr>, st4\<lparr>st_db := db4\<rparr>)))))))))"


section \<open>Worker pool (internal/worker/pool.go)\<close>

text \<open>
  A Go channel: its capacity, the values in its buffer, whether it is closed, and the
  number of goroutines parked in a receive on it. The runtime keeps the buffer within the
  capacity and parks a receiver only when the buffer is empty.
\<close>

record 'a chan =
  chan_cap :: nat
  chan_buf :: "'a list"
  chan_closed :: bool
  chan_recvq :: nat

definition chan_wf :: "'a chan \<Rightarrow> bool" where
  "chan_wf c = (length (chan_buf c) \<le> chan_cap c \<and> (chan_recvq c = 0 \<or> chan_buf c = []))"

definition make_chan :: "int \<Rightarrow> ('a chan) outcome" where
  "make_chan sz =
     (if sz < 0 then Panics ''makechan: size out of range''
      else Returns \<lparr>chan_cap = nat sz, chan_buf = [], chan_closed = False, chan_recvq = 0\<rparr>)"

text \<open>
  A send that the runtime lets proceed: on a closed channel it panics, a parked receiver
  takes the value directly, else the value goes into the buffer.
\<close>

definition send_ready :: "'a chan \<Rightarrow> bool" where
  "send_ready c = (chan_closed c \<or> chan_recvq c > 0 \<or> length (chan_buf c) < chan_cap c)"

definition chansend :: "'a chan \<Rightarrow> 'a \<Rightarrow> ('a chan) outcome" where
  "chansend c v =
     (if chan_closed c then Panics ''send on closed channel''
      else if chan_recvq c > 0 then Returns (c\<lparr>chan_recvq := chan_recvq c - 1\<rparr>)
      else Returns (c\<lparr>chan_buf := chan_buf c @ [v]\<rparr>))"

definition close_chan :: "'a chan \<Rightarrow> ('a chan) outcome" where
  "close_chan c =
     (if chan_closed c then Panics ''close of closed channel''
      else Returns (c\<lparr>chan_closed := True, chan_recvq := 0\<rparr>))"

record WorkerConfig =
  PoolSize :: int
  QueueSize :: int
  ProcessTimeout :: int

record Pool =
  config :: WorkerConfig
  jobs :: "ProcessingJob chan"
  results :: "ProcessingResult chan"
  ctx_done :: bool

definition ErrQueueFull :: error where
  "ErrQueueFull = PoolError ''job queue is full''"

definition NewPool :: "WorkerConfig \<Rightarrow> Pool outcome" where
  "NewPool cfg =
     (case make_chan (QueueSize cfg) of
        Panics m \<Rightarrow> Panics m
      | Returns j \<Rightarrow>
          (case make_chan (QueueSize cfg) of
             Panics m \<Rightarrow> Panics m
           | Returns r \<Rightarrow> Returns \<lparr>config = cfg, jobs = j, results = r, ctx_done = False\<rparr>))"

text \<open>
  \<open>Start\<close>, once each of the \<open>PoolSize\<close> workers has reached its \<open>select\<close>: a worker
  takes a job from the buffer when there is one, and parks in the receive otherwise.
\<close>

definition Start :: "Pool \<Rightarrow> Pool" where
  "Start p =
     (let n = nat (PoolSize (config p));
          taken = min n (length (chan_buf (jobs p)))
      in p\<lparr>jobs := (jobs p)\<lparr>chan_buf := drop taken (chan_buf (jobs p)),
                             chan_recvq := n - taken\<rparr>\<rparr>)"

text \<open>
  The \<open>select\<close> of \<open>Submit\<close> has two communications and a default. The runtime polls the
  communications in a pseudo-random order and takes the first that can proceed; when
  none can, it takes the default.
\<close>

datatype select_case = SendJob | RecvDone

definition can_proceed :: "Pool \<Rightarrow> select_case \<Rightarrow> bool" where
  "can_proceed p c = (case c of SendJob \<Rightarrow> send_ready (jobs p) | RecvDone \<Rightarrow> ctx_done p)"

definition Submit ::
  "select_case list \<Rightarrow> Pool \<Rightarrow> ProcessingJob \<Rightarrow> (error option \<times> Pool) outcome" where
  "Submit pollorder p job =
     (case find (can_proceed p) pollorder of
        Some SendJob \<Rightarrow>
          (case chansend (jobs p) job of
             Panics m \<Rightarrow> Panics m
           | Returns c \<Rightarrow> Returns (None, p\<lparr>jobs := c\<rparr>))
      | Some RecvDone \<Rightarrow> Returns (Some ContextCanceled, p)
      | None \<Rightarrow> Returns (Some ErrQueueFull, p))"

text \<open>
  \<open>Stop\<close>: cancel the context, close the job channel, wait for the workers (which may
  take \<open>drained\<close> more jobs from the buffer before they see the cancellation), close the
  result channel.
\<close>

definition Stop :: "nat \<Rightarrow> Pool \<Rightarrow> Pool outcome" where
  "Stop drained p =
     (let p1 = p\<lparr>ctx_done := True\<rparr> in
      case close_chan (jobs p1) of
        Panics m \<Rightarrow> Panics m
      | Returns j \<Rightarrow>
          (let p2 = p1\<lparr>jobs := j\<lparr>chan_buf := drop drained (chan_buf j)\<rparr>\<rparr> in
           case close_chan (results p2) of
             Panics m \<Rightarrow> Panics m
           | Returns r \<Rightarrow> Returns (p2\<lparr>results := r\<rparr>)))"


section \<open>Reading a run\<close>



text \<open>
  The events of one round of the retry loop in which the context stays live: the wait
  before a retry, then the attempt.
\<close>

definition round_events :: "APIConfig \<Rightarrow> int \<Rightarrow> api_event list" where
  "round_events cfg attempt =
     (if attempt > 0 then [Wait (Duration_mul (RetryDelay cfg) attempt)] else [])
       @ [Attempt (nat attempt)]"

text \<open>
  The eligibility predicate in the words of the specification:
  \<open>status = 'pending' AND retry_count < MAX_RETRIES\<close>.
\<close>

definition spec_claim_eligible :: "int \<Rightarrow> UnsendData \<Rightarrow> bool" where
  "spec_claim_eligible max_retries r = (Status r = StatusPending \<and> RetryCount r < max_retries)"

text \<open>
  A pool whose job channel is as the runtime keeps it, with the capacity \<open>NewPool\<close> gave it.
\<close>

definition pool_wf :: "Pool \<Rightarrow> bool" where
  "pool_wf p = (chan_wf (jobs p) \<and> chan_cap (jobs p) = nat (QueueSize (config p)))"


section \<open>Concrete runs\<close>

text \<open>
  Environments: the database faults and the HTTP exchanges vary, the rest is fixed (a
  clock at 1000, sockets that accept every write, a context that stays live, a reply
  body that parses to \<open>ok_payload\<close>).
\<close>

definition ok_payload :: APIResponsePayload where
  "ok_payload = \<lparr>pl_RequestID = ''42'', pl_Status = ''ok'', pl_StatusCode = 200,
                 pl_Message = ''hello'', pl_Data = None, pl_Timestamp = []\<rparr>"

definition env_with ::
  "(statement \<Rightarrow> error option) \<Rightarrow> (nat \<Rightarrow> error + http_response) \<Rightarrow> Env" where
  "env_with faults exchanges =
     \<lparr>now = 1000,
      db_fault = faults,
      scan_fault = (\<lambda>row. None),
      rows_err = None,
      rows_affected_fault = None,
      row_locked = (\<lambda>i. False),
      conn_Write = (\<lambda>c data. None),
      json_Marshal_request = (\<lambda>request. Inr (''request '' @ req_RequestID request)),
      new_request_fault = None,
      http_Do = exchanges,
      ctx_done_in_wait = (\<lambda>k. None),
      json_Unmarshal_payload = (\<lambda>body. Inr ok_payload),
      json_Unmarshal_object = (\<lambda>data. None),
      json_Marshal_payload = (\<lambda>payload. Inr [0x7B, 0x7D]),
      base64_EncodeToString = (\<lambda>data. ''3q2+7w==''),
      base64_DecodeString = (\<lambda>s. Inr [])\<rparr>"

definition no_fault :: "statement \<Rightarrow> error option" where
  "no_fault stmt = None"

definition storage_error :: error where
  "storage_error = ErrorString ''ORA-03113: end-of-file on communication channel''"

text \<open>
  The statements of steps 6, 9 and 10 fail; marking a row sending or failed and
  incrementing its retry count succeed.
\<close>

definition cleanup_faults :: "statement \<Rightarrow> error option" where
  "cleanup_faults stmt =
     (case stmt of
        UpdateStatus i s m \<Rightarrow> if s = StatusComplete then Some storage_error else None
      | InsertResponse i c b \<Rightarrow> Some storage_error
      | DeleteRequest i \<Rightarrow> Some storage_error
      | _ \<Rightarrow> None)"

definition ok_exchange :: "nat \<Rightarrow> error + http_response" where
  "ok_exchange k = Inr \<lparr>http_StatusCode = 200, http_Body = Inr ''reply 42''\<rparr>"

definition unavailable :: "nat \<Rightarrow> error + http_response" where
  "unavailable k = Inr \<lparr>http_StatusCode = 503, http_Body = Inr ''Service Unavailable''\<rparr>"

definition quiet_env :: Env where
  "quiet_env = env_with no_fault ok_exchange"

definition cleanup_fails_env :: Env where
  "cleanup_fails_env = env_with cleanup_faults ok_exchange"

definition outage_env :: Env where
  "outage_env = env_with no_fault unavailable"


definition broken_pipe_env :: Env where
  "broken_pipe_env =
     quiet_env\<lparr>conn_Write := (\<lambda>c data. Some (ErrorString ''write: broken pipe''))\<rparr>"

definition default_api_config :: APIConfig where
  "default_api_config =
     \<lparr>BaseURL = ''https://api.example.com'', Timeout = 30000000000, MaxRetries = 3,
      RetryDelay = 1000000000\<rparr>"

text \<open>Rows, tables, a registry with one client, and the state of the happy-path scenario.\<close>

definition pending_row :: UnsendData where
  "pending_row =
     \<lparr>ID = 42, ClientPort = 54321, BinaryData = [0xDE, 0xAD, 0xBE, 0xEF],
      Status = StatusPending, CreatedAt = 10, UpdatedAt = 10, RetryCount = 0, LastError = None\<rparr>"

definition failed_row :: UnsendData where
  "failed_row =
     \<lparr>ID = 42, ClientPort = 54321, BinaryData = [0xDE, 0xAD, 0xBE, 0xEF],
      Status = StatusFailed, CreatedAt = 10, UpdatedAt = 20, RetryCount = 1,
      LastError = Some ''API request failed: context deadline exceeded''\<rparr>"

definition other_row :: UnsendData where
  "other_row =
     \<lparr>ID = 8, ClientPort = 9999, BinaryData = [1, 2, 3, 4],
      Status = StatusPending, CreatedAt = 5, UpdatedAt = 5, RetryCount = 0,
      LastError = Some ''earlier''\<rparr>"

definition poison_row :: UnsendData where
  "poison_row =
     \<lparr>ID = 7, ClientPort = 9999, BinaryData = [1, 2, 3, 4],
      Status = StatusPending, CreatedAt = 5, UpdatedAt = 6, RetryCount = 3,
      LastError = Some ''failed to mark as sending: failed to update request status''\<rparr>"

definition db_two :: Database where
  "db_two =
     \<lparr>unsend_data = [failed_row, other_row], api_responses = [], next_id = 43, executed = []\<rparr>"

definition db_poison :: Database where
  "db_poison =
     \<lparr>unsend_data = [failed_row, poison_row], api_responses = [], next_id = 43, executed = []\<rparr>"

text \<open>Two pending rows, the older one at the retry ceiling, and a failed row.\<close>

definition db_queue :: Database where
  "db_queue =
     \<lparr>unsend_data = [pending_row, failed_row, poison_row], api_responses = [], next_id = 43,
      executed = []\<rparr>"

definition one_client :: ConnectionManager where
  "one_client = snd (Register quiet_env NewConnectionManager 54321 7 ''10.0.0.9:54321'')"

definition st_one :: State where
  "st_one =
     \<lparr>st_db = \<lparr>unsend_data = [pending_row], api_responses = [], next_id = 43, executed = []\<rparr>,
      st_cm = one_client, st_api = []\<rparr>"

definition ok_request :: APIRequest where
  "ok_request =
     \<lparr>req_RequestID = ''42'', req_Timestamp = 1000, req_ClientPort = 54321,
      req_Data = [(''binary_data'', JString ''3q2+7w==''), (''data_length'', JNumber 4),
                  (''encoding'', JString ''base64''), (''format'', JString ''binary'')]\<rparr>"

text \<open>Pools: the default configuration, a queue of two, and an unbuffered queue.\<close>

definition default_worker_config :: WorkerConfig where
  "default_worker_config = \<lparr>PoolSize = 100, QueueSize = 1000, ProcessTimeout = 60000000000\<rparr>"

definition small_worker_config :: WorkerConfig where
  "small_worker_config = \<lparr>PoolSize = 1, QueueSize = 2, ProcessTimeout = 60000000000\<rparr>"

definition unbuffered_worker_config :: WorkerConfig where
  "unbuffered_worker_config = \<lparr>PoolSize = 1, QueueSize = 0, ProcessTimeout = 60000000000\<rparr>"

definition job_of :: "UnsendData \<Rightarrow> ProcessingJob" where
  "job_of r = \<lparr>job_Request = r, job_RetryCount = RetryCount r, SubmittedAt = 1000\<rparr>"

definition new_pool :: "WorkerConfig \<Rightarrow> Pool" where
  "new_pool cfg = (case NewPool cfg of Returns p \<Rightarrow> p)"

text \<open>The pool of two after two submissions, before any worker is started.\<close>

definition full_pool :: Pool where
  "full_pool =
     (case Submit [SendJob, RecvDone] (new_pool small_worker_config) (job_of failed_row) of
        Returns (e, p) \<Rightarrow>
          (case Submit [RecvDone, SendJob] p (job_of other_row) of Returns (e', p') \<Rightarrow> p'))"

text \<open>The default pool, started and then stopped.\<close>

definition stopped_pool :: Pool where
  "stopped_pool = (case Stop 0 (Start (new_pool default_worker_config)) of Returns p \<Rightarrow> p)"


section \<open>The wire codec: round trip and reader contract\<close>

lemma Uint32_big_endian:
  "Uint32 [ucast (drop_bit 24 v), ucast (drop_bit 16 v), ucast (drop_bit 8 v), ucast (v::uint32)]
     = v"
  unfolding Uint32_def
  apply (rule bit_word_eqI)
  subgoal for n
    apply (cases "n < 8"; cases "n < 16"; cases "n < 24")
           apply (auto simp add: bit_simps)
    done
  done

lemma replicate_header: "replicate (8 + n) (0::byte) = 0 # 0 # 0 # 0 # 0 # 0 # 0 # 0 # replicate n 0"
  by (simp add: eval_nat_numeral)

text \<open>The frame \<open>EncodeMessage\<close> builds in place, written out.\<close>

lemma EncodeMessage_layout:
  assumes "length data \<le> MaxMessageSize"
  shows "EncodeMessage msgType data =
    Inr (ProtocolVersion # msgType # ucast (drop_bit 24 (of_nat (length data) :: uint32))
         # ucast (drop_bit 16 (of_nat (length data) :: uint32))
         # ucast (drop_bit 8 (of_nat (length data) :: uint32))
         # ucast (of_nat (length data) :: uint32) # 0 # 0 # data)"
  using assms
  by (simp add: EncodeMessage_def Let_def HeaderSize_def PutUint32_def copy_into_def
      replicate_header eval_nat_numeral)

lemma unat_frame_length: "n \<le> MaxMessageSize \<Longrightarrow> unat (of_nat n :: uint32) = n"
  by (simp add: unat_of_nat take_bit_nat_eq_self MaxMessageSize_def)

lemma DecodeMessage_header:
  "DecodeMessage (v # t # b0 # b1 # b2 # b3 # r0 # r1 # rest) =
    (let msg = \<lparr>Version = v, Type = t, Length = Uint32 [b0, b1, b2, b3], Data = []\<rparr> in
     if v \<noteq> ProtocolVersion then
       (Inl (ErrorString (''unsupported protocol version: '' @ itoa (uint v))), rest, 0)
     else if unat (Length msg) > MaxMessageSize then
       (Inl (ErrorString (''message size '' @ itoa (uint (Length msg))
               @ '' exceeds maximum '' @ itoa (int MaxMessageSize))), rest, 0)
     else if Length msg > 0 then
       (case ReadFull rest (unat (Length msg)) of
          (Inl err, reader'') \<Rightarrow>
            (Inl (WrapError ''failed to read message data'' err), reader'', unat (Length msg))
        | (Inr data, reader'') \<Rightarrow>
            (Inr (msg\<lparr>Data := data\<rparr>), reader'', unat (Length msg)))
     else (Inr msg, rest, 0))"
  by (simp add: DecodeMessage_def ReadFull_def HeaderSize_def Let_def)

text \<open>
  Claim C6 (frame round trip). For every message type \<open>t\<close> and every payload \<open>p\<close> of at
  most \<open>MaxMessageSize\<close> (10 MiB) bytes, \<open>EncodeMessage t p\<close> succeeds, and \<open>DecodeMessage\<close>
  on a stream that starts with the encoded bytes returns a message with \<open>Type = t\<close> and
  \<open>Data = p\<close> (and version 1, length \<open>|p|\<close>), leaving the reader just after the frame.
\<close>

theorem frame_round_trip:
  assumes "length p \<le> MaxMessageSize"
  shows "\<exists>enc. EncodeMessage t p = Inr enc \<and>
           DecodeMessage (enc @ rest) =
             (Inr \<lparr>Version = ProtocolVersion, Type = t, Length = of_nat (length p), Data = p\<rparr>,
              rest, length p)"
proof -
  let ?n = "of_nat (length p) :: uint32"
  have len: "unat ?n = length p"
    using assms by (rule unat_frame_length)
  have enc: "EncodeMessage t p =
    Inr (ProtocolVersion # t # ucast (drop_bit 24 ?n) # ucast (drop_bit 16 ?n)
         # ucast (drop_bit 8 ?n) # ucast ?n # 0 # 0 # p)"
    using assms by (rule EncodeMessage_layout)
  have pos: "?n > 0 \<longleftrightarrow> p \<noteq> []"
    using len by (simp add: word_less_nat_alt)
  show ?thesis
    using assms len pos
    by (simp add: enc DecodeMessage_header Uint32_big_endian Let_def ReadFull_def)
qed

theorem frame_round_trip_witness:
  "length [0xDE, 0xAD, 0xBE, 0xEF :: byte] \<le> MaxMessageSize \<and>
   EncodeMessage MessageTypeResponse [0xDE, 0xAD, 0xBE, 0xEF] =
     Inr [1, 2, 0, 0, 0, 4, 0, 0, 0xDE, 0xAD, 0xBE, 0xEF] \<and>
   DecodeMessage [1, 2, 0, 0, 0, 4, 0, 0, 0xDE, 0xAD, 0xBE, 0xEF, 0x99] =
     (Inr \<lparr>Version = 1, Type = 2, Length = 4, Data = [0xDE, 0xAD, 0xBE, 0xEF]\<rparr>, [0x99], 4)"
  using frame_round_trip [of "[0xDE, 0xAD, 0xBE, 0xEF]" MessageTypeResponse "[0x99]"]
  by (simp add: MaxMessageSize_def EncodeMessage_layout MessageTypeResponse_def
      ProtocolVersion_def)

text \<open>
  Claim C7 (reader contract). On every byte stream \<open>s\<close>, with \<open>n\<close> the length field of the
  header: a stream of fewer than 8 bytes fails in the header read; with 8 header bytes
  and a version byte other than 1, \<open>DecodeMessage\<close> fails with the unsupported-version
  error, having read exactly the 8 header bytes; with \<open>n > MaxMessageSize\<close> it fails with
  the oversize error, having read exactly the 8 header bytes and allocated no payload
  buffer; otherwise it reads exactly \<open>n\<close> payload bytes after the header (and fails when
  the stream ends before them).
\<close>

theorem DecodeMessage_reader_contract:
  fixes s :: "byte list"
  defines "n \<equiv> Uint32 (take 4 (drop 2 s))"
  shows
    "(length s < 8 \<longrightarrow>
        DecodeMessage s =
          (Inl (WrapError ''failed to read header'' (if s = [] then EOF else ErrUnexpectedEOF)),
           [], 0))
     \<and> (8 \<le> length s \<and> s ! 0 \<noteq> 1 \<longrightarrow>
        DecodeMessage s =
          (Inl (ErrorString (''unsupported protocol version: '' @ itoa (uint (s ! 0)))),
           drop 8 s, 0))
     \<and> (8 \<le> length s \<and> s ! 0 = 1 \<and> MaxMessageSize < unat n \<longrightarrow>
        DecodeMessage s =
          (Inl (ErrorString (''message size '' @ itoa (uint n) @ '' exceeds maximum ''
                  @ itoa (int MaxMessageSize))),
           drop 8 s, 0))
     \<and> (8 \<le> length s \<and> s ! 0 = 1 \<and> unat n \<le> MaxMessageSize \<and> 8 + unat n \<le> length s \<longrightarrow>
        DecodeMessage s =
          (Inr \<lparr>Version = 1, Type = s ! 1, Length = n, Data = take (unat n) (drop 8 s)\<rparr>,
           drop (8 + unat n) s, unat n))
     \<and> (8 \<le> length s \<and> s ! 0 = 1 \<and> unat n \<le> MaxMessageSize \<and> length s < 8 + unat n \<longrightarrow>
        DecodeMessage s =
          (Inl (WrapError ''failed to read message data''
                  (if length s = 8 then EOF else ErrUnexpectedEOF)),
           [], unat n))"
proof -
  have slice: "8 \<le> length s \<Longrightarrow> take 4 (drop 2 (take 8 s)) = take 4 (drop 2 s)"
    by (simp add: drop_take)
  have pos: "(0 < n) = (unat n \<noteq> 0)"
    by (simp add: word_less_nat_alt)
  show ?thesis
    using slice pos
    by (auto simp add: DecodeMessage_def ReadFull_def HeaderSize_def ProtocolVersion_def Let_def
        n_def [symmetric] add.commute)
qed

theorem DecodeMessage_reader_contract_witness:
  "DecodeMessage [1, 2, 0] = (Inl (WrapError ''failed to read header'' ErrUnexpectedEOF), [], 0)
   \<and> DecodeMessage [2, 1, 0, 0, 0, 0, 0, 0, 9] =
       (Inl (ErrorString ''unsupported protocol version: 2''), [9], 0)
   \<and> DecodeMessage [1, 1, 0, 0xA0, 0, 1, 0, 0, 7, 7] =
       (Inl (ErrorString ''message size 10485761 exceeds maximum 10485760''), [7, 7], 0)
   \<and> DecodeMessage [1, 1, 0, 0, 0, 2, 0, 0, 5, 6, 7] =
       (Inr \<lparr>Version = 1, Type = 1, Length = 2, Data = [5, 6]\<rparr>, [7], 2)
   \<and> DecodeMessage [1, 1, 0, 0, 0, 2, 0, 0, 5] =
       (Inl (WrapError ''failed to read message data'' ErrUnexpectedEOF), [], 2)"
  using DecodeMessage_reader_contract [of "[1, 2, 0]"]
    DecodeMessage_reader_contract [of "[2, 1, 0, 0, 0, 0, 0, 0, 9]"]
    DecodeMessage_reader_contract [of "[1, 1, 0, 0xA0, 0, 1, 0, 0, 7, 7]"]
    DecodeMessage_reader_contract [of "[1, 1, 0, 0, 0, 2, 0, 0, 5, 6, 7]"]
    DecodeMessage_reader_contract [of "[1, 1, 0, 0, 0, 2, 0, 0, 5]"]
  by (simp add: Uint32_def MaxMessageSize_def itoa_def digits.simps)


section \<open>The work repository\<close>

lemma UpdateRequestStatus_effect:
  "unsend_data (snd (UpdateRequestStatus env db requestID status errorMsg)) =
     (if db_fault env (UpdateStatus requestID status errorMsg) = None
      then map (\<lambda>r. if ID r = requestID
                     then r\<lparr>Status := status, UpdatedAt := now env, LastError := errorMsg\<rparr>
                     else r) (unsend_data db)
      else unsend_data db)"
  "executed (snd (UpdateRequestStatus env db requestID status errorMsg)) =
     executed db @ [UpdateStatus requestID status errorMsg]"
  "api_responses (snd (UpdateRequestStatus env db requestID status errorMsg)) = api_responses db"
  by (simp_all add: UpdateRequestStatus_def exec_def Let_def split: option.splits)

lemma UpdateRequestStatus_fst:
  "(fst (UpdateRequestStatus env db requestID status errorMsg) = None) =
     (db_fault env (UpdateStatus requestID status errorMsg) = None)"
  by (simp add: UpdateRequestStatus_def Let_def split: option.splits)

lemma IncrementRetryCount_effect:
  "unsend_data (snd (IncrementRetryCount env db requestID)) =
     (if db_fault env (IncrementRetry requestID) = None
      then map (\<lambda>r. if ID r = requestID
                     then r\<lparr>RetryCount := RetryCount r + 1, UpdatedAt := now env\<rparr>
                     else r) (unsend_data db)
      else unsend_data db)"
  "executed (snd (IncrementRetryCount env db requestID)) = executed db @ [IncrementRetry requestID]"
  "api_responses (snd (IncrementRetryCount env db requestID)) = api_responses db"
  by (simp_all add: IncrementRetryCount_def exec_def Let_def split: option.splits)

lemma InsertAPIResponse_effect:
  "unsend_data (snd (InsertAPIResponse env db response)) = unsend_data db"
  "executed (snd (InsertAPIResponse env db response)) =
     executed db @ [InsertResponse (resp_RequestID response) (resp_StatusCode response)
                      (resp_ResponseBody response)]"
  by (simp_all add: InsertAPIResponse_def exec_def Let_def split: option.splits)

lemma DeleteProcessedRequest_effect:
  "unsend_data (snd (DeleteProcessedRequest env db requestID)) =
     (if db_fault env (DeleteRequest requestID) = None
      then filter (\<lambda>r. ID r \<noteq> requestID) (unsend_data db)
      else unsend_data db)"
  "executed (snd (DeleteProcessedRequest env db requestID)) = executed db @ [DeleteRequest requestID]"
  "api_responses (snd (DeleteProcessedRequest env db requestID)) = api_responses db"
  by (simp_all add: DeleteProcessedRequest_def exec_def Let_def split: option.splits)

lemma MarkAsSending_effect:
  "unsend_data (snd (MarkAsSending env db requestID)) =
     (if db_fault env (UpdateStatus requestID StatusSending None) = None
      then map (\<lambda>r. if ID r = requestID
                     then r\<lparr>Status := StatusSending, UpdatedAt := now env, LastError := None\<rparr>
                     else r) (unsend_data db)
      else unsend_data db)"
  "executed (snd (MarkAsSending env db requestID)) =
     executed db @ [UpdateStatus requestID StatusSending None]"
  "api_responses (snd (MarkAsSending env db requestID)) = api_responses db"
  by (simp_all add: MarkAsSending_def UpdateRequestStatus_effect)

lemma MarkAsSending_fst:
  "(fst (MarkAsSending env db requestID) = None) =
     (db_fault env (UpdateStatus requestID StatusSending None) = None)"
  by (simp add: MarkAsSending_def UpdateRequestStatus_fst)

lemma MarkAsComplete_effect:
  "unsend_data (snd (MarkAsComplete env db requestID)) =
     (if db_fault env (UpdateStatus requestID StatusComplete None) = None
      then map (\<lambda>r. if ID r = requestID
                     then r\<lparr>Status := StatusComplete, UpdatedAt := now env, LastError := None\<rparr>
                     else r) (unsend_data db)
      else unsend_data db)"
  "executed (snd (MarkAsComplete env db requestID)) =
     executed db @ [UpdateStatus requestID StatusComplete None]"
  "api_responses (snd (MarkAsComplete env db requestID)) = api_responses db"
  by (simp_all add: MarkAsComplete_def UpdateRequestStatus_effect)

lemma MarkAsComplete_fst:
  "(fst (MarkAsComplete env db requestID) = None) =
     (db_fault env (UpdateStatus requestID StatusComplete None) = None)"
  by (simp add: MarkAsComplete_def UpdateRequestStatus_fst)

text \<open>
  Claim C10. When the statement succeeds, \<open>MarkAsSending\<close> and \<open>MarkAsComplete\<close> (here
  \<open>mark\<close>, with its \<open>status\<close>) return no error and keep the number of rows; every row with
  the given id gets \<open>last_error = NULL\<close> (whatever it held), the new status and the
  current time as \<open>updated_at\<close>, and keeps its id, client port, payload, creation time
  and retry count; every other row, and the response table, are unchanged.
\<close>

theorem mark_clears_last_error:
  assumes "mark = MarkAsSending \<and> status = StatusSending
           \<or> mark = MarkAsComplete \<and> status = StatusComplete"
    and "db_fault env (UpdateStatus requestID status None) = None"
  shows "fst (mark env db requestID) = None
     \<and> length (unsend_data (snd (mark env db requestID))) = length (unsend_data db)
     \<and> (\<forall>i < length (unsend_data db).
           let r = unsend_data db ! i; r' = unsend_data (snd (mark env db requestID)) ! i in
           if ID r = requestID then
             LastError r' = None \<and> Status r' = status \<and> UpdatedAt r' = now env
             \<and> ID r' = ID r \<and> ClientPort r' = ClientPort r \<and> BinaryData r' = BinaryData r
             \<and> CreatedAt r' = CreatedAt r \<and> RetryCount r' = RetryCount r
           else r' = r)
     \<and> api_responses (snd (mark env db requestID)) = api_responses db"
  using assms
  by (auto simp add: MarkAsSending_effect MarkAsComplete_effect MarkAsSending_fst
      MarkAsComplete_fst Let_def)

lemma quiet_env_no_fault: "db_fault quiet_env stmt = None"
  by (simp add: quiet_env_def env_with_def no_fault_def)

theorem mark_clears_last_error_witness:
  "LastError failed_row = Some ''API request failed: context deadline exceeded''
   \<and> fst (MarkAsSending quiet_env db_two 42) = None
   \<and> map LastError (unsend_data (snd (MarkAsSending quiet_env db_two 42))) = [None, Some ''earlier'']
   \<and> map Status (unsend_data (snd (MarkAsComplete quiet_env db_two 42)))
       = [StatusComplete, StatusPending]
   \<and> map RetryCount (unsend_data (snd (MarkAsComplete quiet_env db_two 42))) = [1, 0]"
  using mark_clears_last_error [of MarkAsSending StatusSending quiet_env 42 db_two]
    mark_clears_last_error [of MarkAsComplete StatusComplete quiet_env 42 db_two]
  by (simp add: quiet_env_no_fault db_two_def failed_row_def other_row_def MarkAsSending_effect
      MarkAsComplete_effect)

lemma scan_rows_Inr: "scan_rows env rows acc = Inr requests \<Longrightarrow> requests = acc @ rows"
proof (induction rows arbitrary: acc)
  case Nil
  then show ?case by simp
next
  case (Cons row rows)
  from Cons.prems have "scan_rows env rows (acc @ [row]) = Inr requests"
    by (simp split: option.splits)
  from Cons.IH [OF this] show ?case by simp
qed

lemma scan_rows_no_fault:
  "(\<And>row. scan_fault env row = None) \<Longrightarrow> scan_rows env rows acc = Inr (acc @ rows)"
  by (induction rows arbitrary: acc) simp_all

lemma FetchPendingRequests_Inr:
  assumes "fst (FetchPendingRequests env db limit) = Inr requests"
  shows "requests = select_pending env (unsend_data db) limit"
proof -
  from assms have "scan_rows env (select_pending env (unsend_data db) limit) [] = Inr requests"
    by (simp add: FetchPendingRequests_def Let_def split: option.splits sum.splits)
  from scan_rows_Inr [OF this] show ?thesis by simp
qed

text \<open>Without a driver error the query returns, and it returns the selected rows.\<close>

lemma FetchPendingRequests_returns:
  assumes "db_fault env (SelectPending limit) = None"
    and "\<And>row. scan_fault env row = None"
    and "rows_err env = None"
  shows "fst (FetchPendingRequests env db limit) = Inr (select_pending env (unsend_data db) limit)"
  using assms by (simp add: FetchPendingRequests_def Let_def scan_rows_no_fault)

text \<open>
  Sorting by a key commutes with a map that leaves the key unchanged, so changing the
  retry counts of a table changes nothing in the selection but the retry counts.
\<close>

lemma insort_key_map_commute:
  assumes "\<And>x. f (h x) = f x"
  shows "insort_key f (h x) (map h ys) = map h (insort_key f x ys)"
  using assms by (induction ys) simp_all

lemma sort_key_map_commute:
  assumes "\<And>x. f (h x) = f x"
  shows "sort_key f (map h xs) = map h (sort_key f xs)"
  using assms by (induction xs) (simp_all add: insort_key_map_commute)

lemma select_pending_retry_counts:
  "select_pending env (map (\<lambda>r. r\<lparr>RetryCount := g r\<rparr>) tbl) limit =
     map (\<lambda>r. r\<lparr>RetryCount := g r\<rparr>) (select_pending env tbl limit)"
proof -
  have "filter (\<lambda>r. Status r = StatusPending \<and> \<not> row_locked env (ID r))
          (map (\<lambda>r. r\<lparr>RetryCount := g r\<rparr>) tbl)
        = map (\<lambda>r. r\<lparr>RetryCount := g r\<rparr>)
            (filter (\<lambda>r. Status r = StatusPending \<and> \<not> row_locked env (ID r)) tbl)"
    by (induction tbl) simp_all
  then show ?thesis
    by (simp add: select_pending_def sort_key_map_commute take_map)
qed

text \<open>A prefix of a sorted list comes before every element that the prefix leaves out.\<close>

lemma take_sorted_first:
  assumes "sorted (map f ys)" and "q \<in> set (take n ys)" and "r \<in> set ys" and "r \<notin> set (take n ys)"
  shows "f q \<le> f r"
proof -
  have "ys = take n ys @ drop n ys" by simp
  with assms(3,4) have r: "r \<in> set (drop n ys)"
    by (metis Un_iff set_append)
  from assms(1) have "sorted (map f (take n ys) @ map f (drop n ys))"
    by (simp flip: map_append)
  then have "\<forall>x \<in> set (map f (take n ys)). \<forall>y \<in> set (map f (drop n ys)). x \<le> y"
    by (simp add: sorted_append)
  with assms(2) r show ?thesis by auto
qed

text \<open>
  Claim C1, as the code has it. When \<open>FetchPendingRequests\<close> returns rows, they are the
  first \<open>limit\<close> rows, in ascending order of \<open>created_at\<close>, of the rows of the table with
  \<open>status = 'pending'\<close> that no other transaction holds locked (rows with the same
  \<open>created_at\<close> are taken in table order here). So every row returned is pending and
  unlocked; the number of rows returned is the smaller of \<open>limit\<close> and the number of
  pending unlocked rows, so that all of them are returned when \<open>limit\<close> allows; the rows
  returned are sorted by \<open>created_at\<close>, and a pending unlocked row that is left out was
  created no earlier than any row returned. A row with \<open>status = 'failed'\<close> is never
  returned. The retry count is not part of the predicate: replacing the retry counts of
  the table by any other values \<open>g r\<close> makes the query return the same rows, with those
  retry counts.
\<close>

theorem claim_pending_eligible_rows:
  assumes "fst (FetchPendingRequests env db limit) = Inr requests"
  shows "requests =
           take (nat limit)
             (sort_key CreatedAt
                (filter (\<lambda>r. Status r = StatusPending \<and> \<not> row_locked env (ID r))
                   (unsend_data db)))
     \<and> set requests \<subseteq>
         set (filter (\<lambda>r. Status r = StatusPending \<and> \<not> row_locked env (ID r)) (unsend_data db))
     \<and> length requests =
         min (nat limit)
           (length (filter (\<lambda>r. Status r = StatusPending \<and> \<not> row_locked env (ID r))
                      (unsend_data db)))
     \<and> sorted (map CreatedAt requests)
     \<and> (\<forall>r \<in> set (filter (\<lambda>r. Status r = StatusPending \<and> \<not> row_locked env (ID r))
                       (unsend_data db)).
           r \<notin> set requests \<longrightarrow> (\<forall>q \<in> set requests. CreatedAt q \<le> CreatedAt r))
     \<and> (\<forall>r \<in> set requests. Status r \<noteq> StatusFailed)
     \<and> (db_fault env (SelectPending limit) = None \<and> (\<forall>row. scan_fault env row = None)
          \<and> rows_err env = None \<longrightarrow>
        fst (FetchPendingRequests env
               (db\<lparr>unsend_data := map (\<lambda>r. r\<lparr>RetryCount := g r\<rparr>) (unsend_data db)\<rparr>) limit)
          = Inr (map (\<lambda>r. r\<lparr>RetryCount := g r\<rparr>) requests))"
proof -
  let ?elig = "filter (\<lambda>r. Status r = StatusPending \<and> \<not> row_locked env (ID r)) (unsend_data db)"
  let ?sorted = "sort_key CreatedAt ?elig"
  have sel: "requests = select_pending env (unsend_data db) limit"
    using FetchPendingRequests_Inr [OF assms] .
  then have req: "requests = take (nat limit) ?sorted"
    by (simp add: select_pending_def)
  have "set requests \<subseteq> set ?sorted"
    unfolding req by (rule set_take_subset)
  then have sub: "set requests \<subseteq> set ?elig" by simp
  have len: "length requests = min (nat limit) (length ?elig)"
    unfolding req by (simp add: min.commute)
  have srt: "sorted (map CreatedAt ?sorted)"
    by (rule sorted_sort_key)
  have srt_req: "sorted (map CreatedAt requests)"
    unfolding req using srt by (simp add: take_map [symmetric] sorted_wrt_take)
  have first: "\<forall>r \<in> set ?elig. r \<notin> set requests \<longrightarrow> (\<forall>q \<in> set requests. CreatedAt q \<le> CreatedAt r)"
  proof (intro ballI impI)
    fix r q
    assume r: "r \<in> set ?elig" and nr: "r \<notin> set requests" and q: "q \<in> set requests"
    from r have rs: "r \<in> set ?sorted" by simp
    from q have q': "q \<in> set (take (nat limit) ?sorted)" unfolding req .
    from nr have nr': "r \<notin> set (take (nat limit) ?sorted)" unfolding req .
    show "CreatedAt q \<le> CreatedAt r"
      by (rule take_sorted_first [OF srt q' rs nr'])
  qed
  have nf: "StatusPending \<noteq> StatusFailed"
    by (simp add: StatusPending_def StatusFailed_def)
  have fl: "\<forall>r \<in> set requests. Status r \<noteq> StatusFailed"
  proof
    fix r assume "r \<in> set requests"
    with sub have "r \<in> set ?elig" by (rule subsetD)
    then have "Status r = StatusPending" by simp
    with nf show "Status r \<noteq> StatusFailed" by simp
  qed
  have ind: "fst (FetchPendingRequests env
               (db\<lparr>unsend_data := map (\<lambda>r. r\<lparr>RetryCount := g r\<rparr>) (unsend_data db)\<rparr>) limit)
          = Inr (map (\<lambda>r. r\<lparr>RetryCount := g r\<rparr>) requests)"
    if "db_fault env (SelectPending limit) = None" and "\<forall>row. scan_fault env row = None"
      and "rows_err env = None"
    using FetchPendingRequests_returns [of env limit
        "db\<lparr>unsend_data := map (\<lambda>r. r\<lparr>RetryCount := g r\<rparr>) (unsend_data db)\<rparr>"] that
    by (simp add: select_pending_retry_counts sel)
  from req sub len srt_req first fl ind show ?thesis by blast
qed

lemma fetch_poison: "fst (FetchPendingRequests quiet_env db_poison 10) = Inr [poison_row]"
  by (simp add: FetchPendingRequests_def select_pending_def exec_def quiet_env_def env_with_def
      no_fault_def db_poison_def poison_row_def failed_row_def StatusPending_def StatusFailed_def
      Let_def)

lemma fetch_queue: "fst (FetchPendingRequests quiet_env db_queue 1) = Inr [poison_row]"
  by (simp add: FetchPendingRequests_def select_pending_def exec_def quiet_env_def env_with_def
      no_fault_def db_queue_def poison_row_def failed_row_def pending_row_def StatusPending_def
      StatusFailed_def Let_def)

text \<open>
  Claim C1 on the table \<open>db_queue\<close> with limit 1: of the two pending rows the older one
  is returned, at the retry ceiling or with any other retry count; the failed row is not
  eligible.
\<close>

theorem claim_pending_eligible_rows_witness:
  "fst (FetchPendingRequests quiet_env db_queue 1) = Inr [poison_row]
   \<and> filter (\<lambda>r. Status r = StatusPending \<and> \<not> row_locked quiet_env (ID r)) (unsend_data db_queue)
       = [pending_row, poison_row]
   \<and> CreatedAt poison_row \<le> CreatedAt pending_row
   \<and> Status poison_row \<noteq> StatusFailed
   \<and> fst (FetchPendingRequests quiet_env
            (db_queue\<lparr>unsend_data := map (\<lambda>r. r\<lparr>RetryCount := 100\<rparr>) (unsend_data db_queue)\<rparr>) 1)
       = Inr [poison_row\<lparr>RetryCount := 100\<rparr>]"
proof -
  have env: "db_fault quiet_env (SelectPending 1) = None" "\<forall>row. scan_fault quiet_env row = None"
    "rows_err quiet_env = None"
    by (simp_all add: quiet_env_def env_with_def no_fault_def)
  have elig: "filter (\<lambda>r. Status r = StatusPending \<and> \<not> row_locked quiet_env (ID r))
                (unsend_data db_queue) = [pending_row, poison_row]"
    by (simp add: quiet_env_def env_with_def db_queue_def poison_row_def failed_row_def
        pending_row_def StatusPending_def StatusFailed_def)
  have ord: "CreatedAt poison_row \<le> CreatedAt pending_row"
    by (simp add: poison_row_def pending_row_def)
  have nf: "Status poison_row \<noteq> StatusFailed"
    by (simp add: poison_row_def StatusPending_def StatusFailed_def)
  from claim_pending_eligible_rows [OF fetch_queue, of "\<lambda>r. 100"] env
  have "fst (FetchPendingRequests quiet_env
            (db_queue\<lparr>unsend_data := map (\<lambda>r. r\<lparr>RetryCount := 100\<rparr>) (unsend_data db_queue)\<rparr>) 1)
       = Inr [poison_row\<lparr>RetryCount := 100\<rparr>]"
    by simp
  with fetch_queue elig ord nf show ?thesis by simp
qed

text \<open>
  Claim C1, as the specification states it, fails: the row \<open>poison_row\<close> is pending with
  \<open>retry_count = 3\<close>, the ceiling of the default configuration, and the query returns it.
\<close>

theorem claim_pending_returns_poison_row:
  "fst (FetchPendingRequests quiet_env db_poison 10) = Inr [poison_row]
   \<and> Status poison_row = StatusPending
   \<and> RetryCount poison_row = MaxRetries default_api_config
   \<and> \<not> spec_claim_eligible (MaxRetries default_api_config) poison_row"
  by (simp add: fetch_poison spec_claim_eligible_def poison_row_def default_api_config_def)


section \<open>The connection registry\<close>

text \<open>
  Claim C5. If \<open>SendData\<close> returns the write-failure error, then when it returns the port
  has no connection and no connection info in the registry, so that \<open>GetConnection\<close>
  finds nothing, and the connection that was registered for the port has been closed.
\<close>

theorem SendData_write_failure_evicts:
  assumes "fst (SendData env cm port data) =
             Some (WrapError (''failed to send data to port '' @ itoa port) err)"
  shows "GetConnection (snd (SendData env cm port data)) port = None
     \<and> connInfo (snd (SendData env cm port data)) port = None
     \<and> (\<exists>c. GetConnection cm port = Some c
            \<and> closed_conns (snd (SendData env cm port data)) = closed_conns cm @ [c])"
  using assms
  by (auto simp add: SendData_def GetConnection_def Unregister_def Let_def
      split: option.splits)

theorem SendData_write_failure_evicts_witness:
  "fst (SendData broken_pipe_env one_client 54321 [1, 2, 0, 0, 0, 0, 0, 0]) =
     Some (WrapError ''failed to send data to port 54321'' (ErrorString ''write: broken pipe''))
   \<and> GetConnection one_client 54321 = Some 7
   \<and> GetConnection (snd (SendData broken_pipe_env one_client 54321 [1, 2, 0, 0, 0, 0, 0, 0])) 54321
       = None
   \<and> closed_conns (snd (SendData broken_pipe_env one_client 54321 [1, 2, 0, 0, 0, 0, 0, 0])) = [7]"
  using SendData_write_failure_evicts [of broken_pipe_env one_client 54321
      "[1, 2, 0, 0, 0, 0, 0, 0]" "ErrorString ''write: broken pipe''"]
  by (simp add: broken_pipe_env_def quiet_env_def env_with_def one_client_def Register_def
      NewConnectionManager_def SendData_def GetConnection_def Unregister_def Let_def
      itoa_def digits.simps)


section \<open>The worker pool\<close>

lemma NewPool_wf: "NewPool cfg = Returns p \<Longrightarrow> pool_wf p"
  by (auto simp add: NewPool_def make_chan_def pool_wf_def chan_wf_def split: if_splits)

lemma Start_wf: "pool_wf p \<Longrightarrow> pool_wf (Start p)"
  by (auto simp add: Start_def pool_wf_def chan_wf_def Let_def min_def)

lemma find_Some_holds: "find P xs = Some x \<Longrightarrow> P x"
  by (auto simp add: find_Some_iff)

lemma Submit_wf:
  assumes "pool_wf p" and "Submit pollorder p job = Returns (err, p')"
  shows "pool_wf p'"
proof (cases "find (can_proceed p) pollorder")
  case None
  with assms show ?thesis by (simp add: Submit_def)
next
  case (Some c)
  show ?thesis
  proof (cases c)
    case SendJob
    with Some have "send_ready (jobs p)"
      using find_Some_holds [of "can_proceed p" pollorder SendJob] by (simp add: can_proceed_def)
    with assms Some SendJob show ?thesis
      by (auto simp add: Submit_def pool_wf_def chan_wf_def chansend_def send_ready_def
          split: if_splits)
  next
    case RecvDone
    with assms Some show ?thesis by (simp add: Submit_def)
  qed
qed

text \<open>
  Claim C8, as the code has it. On a running pool (context live, job channel open) whose
  job buffer holds \<open>QueueSize\<close> jobs, with \<open>QueueSize \<ge> 1\<close> (or, on an unbuffered queue,
  with no worker parked in the receive), \<open>Submit\<close> returns \<open>ErrQueueFull\<close> whatever the
  polling order of its \<open>select\<close>: the call returns (it takes the default case), and the
  pool, the job buffer included, is unchanged.
\<close>

theorem Submit_full_queue:
  assumes "pool_wf p" and "\<not> ctx_done p" and "\<not> chan_closed (jobs p)"
    and "length (chan_buf (jobs p)) = nat (QueueSize (config p))"
    and "0 < QueueSize (config p) \<or> chan_recvq (jobs p) = 0"
  shows "Submit pollorder p job = Returns (Some ErrQueueFull, p)"
proof -
  have "chan_recvq (jobs p) = 0"
    using assms by (auto simp add: pool_wf_def chan_wf_def)
  then have "\<not> send_ready (jobs p)"
    using assms by (simp add: send_ready_def pool_wf_def)
  then have "\<And>c. \<not> can_proceed p c"
    using assms(2) by (simp add: can_proceed_def split: select_case.splits)
  then have "find (can_proceed p) pollorder = None"
    by (simp add: find_None_iff)
  then show ?thesis by (simp add: Submit_def)
qed

lemma full_pool_eq:
  "full_pool =
     \<lparr>config = small_worker_config,
      jobs = \<lparr>chan_cap = 2, chan_buf = [job_of failed_row, job_of other_row],
               chan_closed = False, chan_recvq = 0\<rparr>,
      results = \<lparr>chan_cap = 2, chan_buf = [], chan_closed = False, chan_recvq = 0\<rparr>,
      ctx_done = False\<rparr>"
  by (simp add: full_pool_def new_pool_def NewPool_def make_chan_def small_worker_config_def
      Submit_def can_proceed_def send_ready_def chansend_def)

theorem Submit_full_queue_witness:
  "pool_wf full_pool \<and> \<not> ctx_done full_pool \<and> \<not> chan_closed (jobs full_pool)
   \<and> length (chan_buf (jobs full_pool)) = nat (QueueSize (config full_pool))
   \<and> 0 < QueueSize (config full_pool)
   \<and> Submit [SendJob, RecvDone] full_pool (job_of poison_row)
       = Returns (Some ErrQueueFull, full_pool)
   \<and> Submit [RecvDone, SendJob] full_pool (job_of poison_row)
       = Returns (Some ErrQueueFull, full_pool)"
proof -
  have h: "pool_wf full_pool \<and> \<not> ctx_done full_pool \<and> \<not> chan_closed (jobs full_pool)
   \<and> length (chan_buf (jobs full_pool)) = nat (QueueSize (config full_pool))
   \<and> 0 < QueueSize (config full_pool)"
    by (simp add: full_pool_eq pool_wf_def chan_wf_def small_worker_config_def)
  then show ?thesis
    using Submit_full_queue [of full_pool "[SendJob, RecvDone]" "job_of poison_row"]
      Submit_full_queue [of full_pool "[RecvDone, SendJob]" "job_of poison_row"]
    by simp
qed

text \<open>
  On any pool that is running, with a worker parked in the receive of the job channel,
  \<open>Submit\<close> hands the job to that worker and returns no error, whatever the capacity of
  the channel and the polling order.
\<close>

lemma find_only_ready:
  assumes "x \<in> set xs" and "P x" and "\<forall>y \<in> set xs. P y \<longrightarrow> y = x"
  shows "find P xs = Some x"
proof -
  from assms(1,2) have "find P xs \<noteq> None"
    unfolding find_None_iff by blast
  then obtain y where y: "find P xs = Some y"
    by blast
  then have "P y \<and> y \<in> set xs"
    unfolding find_Some_iff by (metis nth_mem)
  with assms(3) have "y = x"
    by blast
  with y show ?thesis
    by (simp only:)
qed

lemma Submit_hands_over:
  assumes "\<not> ctx_done p" and "\<not> chan_closed (jobs p)" and "0 < chan_recvq (jobs p)"
    and "SendJob \<in> set pollorder"
  shows "Submit pollorder p job =
           Returns (None, p\<lparr>jobs := (jobs p)\<lparr>chan_recvq := chan_recvq (jobs p) - 1\<rparr>\<rparr>)"
proof -
  have r: "can_proceed p SendJob"
    using assms(3) by (simp add: can_proceed_def send_ready_def)
  have o: "\<forall>y \<in> set pollorder. can_proceed p y \<longrightarrow> y = SendJob"
  proof (intro ballI impI)
    fix y
    assume "can_proceed p y"
    with assms(1) show "y = SendJob"
      by (cases y) (simp_all add: can_proceed_def)
  qed
  have f: "find (can_proceed p) pollorder = Some SendJob"
    by (rule find_only_ready [OF assms(4) r o])
  have c: "chansend (jobs p) job = Returns ((jobs p)\<lparr>chan_recvq := chan_recvq (jobs p) - 1\<rparr>)"
    unfolding chansend_def using assms(2,3) by simp
  show ?thesis
    unfolding Submit_def f c by simp
qed

text \<open>
  Claim C8, as the specification states it, fails on an unbuffered queue
  (\<open>queue_size: 0\<close>, which \<open>Validate\<close> accepts): after \<open>Start\<close> the only worker is parked in
  the receive, the queue holds \<open>QueueSize = 0\<close> jobs, and \<open>Submit\<close> hands the job to the
  worker and returns no error, in either polling order.
\<close>

theorem Submit_unbuffered_hands_over:
  "NewPool unbuffered_worker_config = Returns (new_pool unbuffered_worker_config)
   \<and> length (chan_buf (jobs (Start (new_pool unbuffered_worker_config))))
       = nat (QueueSize (config (Start (new_pool unbuffered_worker_config))))
   \<and> \<not> ctx_done (Start (new_pool unbuffered_worker_config))
   \<and> \<not> chan_closed (jobs (Start (new_pool unbuffered_worker_config)))
   \<and> Submit [SendJob, RecvDone] (Start (new_pool unbuffered_worker_config)) (job_of other_row) =
       Returns (None, new_pool unbuffered_worker_config)
   \<and> Submit [RecvDone, SendJob] (Start (new_pool unbuffered_worker_config)) (job_of other_row) =
       Returns (None, new_pool unbuffered_worker_config)"
  by (simp add: new_pool_def NewPool_def make_chan_def unbuffered_worker_config_def Start_def
      Submit_def can_proceed_def send_ready_def chansend_def Let_def)

text \<open>
  After \<open>Stop\<close> has returned, the job channel is closed and the context is cancelled, so
  both communications of the \<open>select\<close> in \<open>Submit\<close> can proceed: when the send is polled
  first the call panics, when the receive from \<open>ctx.Done()\<close> is polled first it returns
  \<open>context.Canceled\<close> and leaves the pool as it was.
\<close>

lemma Submit_after_Stop:
  assumes "Stop drained p = Returns p'"
  shows "Submit (SendJob # rest) p' job = Panics ''send on closed channel''"
    and "Submit (RecvDone # rest) p' job = Returns (Some ContextCanceled, p')"
  using assms
  by (auto simp add: Stop_def close_chan_def Submit_def can_proceed_def send_ready_def
      chansend_def Let_def split: if_splits)

text \<open>
  Claim C9 fails on the code. The default pool is created, started and stopped; \<open>Stop\<close>
  returns. A \<open>Submit\<close> after that panics with \<open>send on closed channel\<close> when the runtime
  polls the send first.
\<close>

theorem Submit_after_Stop_panics:
  "Stop 0 (Start (new_pool default_worker_config)) = Returns stopped_pool
   \<and> Submit [SendJob, RecvDone] stopped_pool (job_of other_row) = Panics ''send on closed channel''
   \<and> Submit [RecvDone, SendJob] stopped_pool (job_of other_row)
       = Returns (Some ContextCanceled, stopped_pool)"
  by (simp add: stopped_pool_def new_pool_def NewPool_def make_chan_def default_worker_config_def
      Start_def Stop_def close_chan_def Submit_def can_proceed_def send_ready_def chansend_def
      Let_def)


section \<open>The job processor\<close>


lemma handleError_table:
  assumes "db_fault env (UpdateStatus requestID StatusFailed (Some (ErrorText err))) = None"
    and "db_fault env (IncrementRetry requestID) = None"
  shows "unsend_data (handleError env db requestID err) =
     map (\<lambda>r. if ID r = requestID
               then r\<lparr>Status := StatusFailed, UpdatedAt := now env,
                      LastError := Some (ErrorText err), RetryCount := RetryCount r + 1\<rparr>
               else r) (unsend_data db)"
  using assms
  by (simp add: handleError_def MarkAsFailed_def Let_def split_beta
      UpdateRequestStatus_effect IncrementRetryCount_effect comp_def if_distrib cong: if_cong)

lemma filter_other_ids:
  "filter (\<lambda>r. ID r \<noteq> i)
     (map (\<lambda>r. if ID r = i then r\<lparr>Status := s, UpdatedAt := t, LastError := e\<rparr> else r) rows)
   = filter (\<lambda>r. ID r \<noteq> i) rows"
  by (induction rows) simp_all

lemma mark_twice:
  "map (\<lambda>r. if ID r = i then r\<lparr>Status := s', UpdatedAt := t', LastError := e'\<rparr> else r)
     (map (\<lambda>r. if ID r = i then r\<lparr>Status := s, UpdatedAt := t, LastError := e\<rparr> else r) rows)
   = map (\<lambda>r. if ID r = i then r\<lparr>Status := s', UpdatedAt := t', LastError := e'\<rparr> else r) rows"
  by (induction rows) simp_all

lemma fail_after_mark:
  "map (\<lambda>r. if ID r = i
             then r\<lparr>Status := StatusFailed, UpdatedAt := t, LastError := e,
                    RetryCount := RetryCount r + 1\<rparr>
             else r)
     (map (\<lambda>r. if ID r = i then r\<lparr>Status := s, UpdatedAt := t', LastError := e'\<rparr> else r) rows)
   = map (\<lambda>r. if ID r = i
             then r\<lparr>Status := StatusFailed, UpdatedAt := t, LastError := e,
                    RetryCount := RetryCount r + 1\<rparr>
             else r) rows"
  by (induction rows) simp_all

subsection \<open>The paths of a run\<close>

text \<open>The run in which steps 1 to 5, 7 and 8 succeed.\<close>

lemma Process_success_path:
  assumes s1: "db_fault env (UpdateStatus (ID request) StatusSending None) = None"
    and s2: "ValidateBinaryData (BinaryData request) = None"
    and s3: "BinaryToAPIRequest env (ID request) (ClientPort request) (BinaryData request)
               = Inr apiRequest"
    and s4: "SendRequest env cfg apiRequest = (Inr apiResponse, evs)"
    and s5: "ValidateAPIResponse (Some apiResponse) = None"
    and s7: "APIResponseToBinary env (Some apiResponse) = Inr binaryResponse"
    and s8: "sendToClient env (st_cm st) (ClientPort request) binaryResponse = (None, cm1)"
  shows "Process env cfg st request =
    (\<lparr>res_RequestID = ID request, res_ClientPort = ClientPort request, Success = True,
      Response = binaryResponse, Error = None\<rparr>,
     \<lparr>st_db = snd (DeleteProcessedRequest env
                (snd (MarkAsComplete env
                   (snd (InsertAPIResponse env (snd (MarkAsSending env (st_db st) (ID request)))
                      \<lparr>resp_RequestID = ID request, resp_StatusCode = pl_StatusCode apiResponse,
                       resp_ResponseBody = pl_Message apiResponse, resp_CreatedAt = now env\<rparr>))
                   (ID request)))
                (ID request)),
      st_cm = cm1, st_api = st_api st @ evs\<rparr>)"
  unfolding Process_def
  by (simp add: MarkAsSending_fst [THEN iffD2, OF s1] s2 s3 s4 s5 s7 s8 Let_def split_beta)

text \<open>The run in which steps 1 to 3 succeed and the upstream client returns an error.\<close>

lemma Process_api_failure_path:
  assumes s1: "db_fault env (UpdateStatus (ID request) StatusSending None) = None"
    and s2: "ValidateBinaryData (BinaryData request) = None"
    and s3: "BinaryToAPIRequest env (ID request) (ClientPort request) (BinaryData request)
               = Inr apiRequest"
    and s4: "SendRequest env cfg apiRequest = (Inl err, evs)"
  shows "Process env cfg st request =
    (\<lparr>res_RequestID = ID request, res_ClientPort = ClientPort request, Success = False,
      Response = [], Error = Some (WrapError ''API request failed'' err)\<rparr>,
     \<lparr>st_db = handleError env (snd (MarkAsSending env (st_db st) (ID request))) (ID request)
                (WrapError ''API request failed'' err),
      st_cm = st_cm st, st_api = st_api st @ evs\<rparr>)"
  unfolding Process_def
  by (simp add: MarkAsSending_fst [THEN iffD2, OF s1] s2 s3 s4 Let_def split_beta fail_with_def)

text \<open>
  Every run that does not succeed ends in \<open>handleError\<close>, on a table that is the initial
  one or the initial one with the row marked sending.
\<close>

lemma Process_failure_form:
  assumes "\<not> Success (fst (Process env cfg st request))"
  shows "\<exists>err db_mid. Error (fst (Process env cfg st request)) = Some err
      \<and> st_db (snd (Process env cfg st request)) = handleError env db_mid (ID request) err
      \<and> (unsend_data db_mid = unsend_data (st_db st)
         \<or> unsend_data db_mid =
             map (\<lambda>r. if ID r = ID request
                       then r\<lparr>Status := StatusSending, UpdatedAt := now env, LastError := None\<rparr>
                       else r) (unsend_data (st_db st)))"
  using assms unfolding Process_def fail_with_def
  by (auto simp add: Let_def split_beta MarkAsSending_effect InsertAPIResponse_effect
      split: option.splits sum.splits if_splits)

text \<open>Every run that succeeds ends with steps 9 and 10 on the row marked sending.\<close>

lemma Process_success_form:
  assumes "Success (fst (Process env cfg st request))"
  shows "Error (fst (Process env cfg st request)) = None
      \<and> (\<exists>db3. st_db (snd (Process env cfg st request)) =
                 snd (DeleteProcessedRequest env (snd (MarkAsComplete env db3 (ID request)))
                        (ID request))
           \<and> unsend_data db3 =
               map (\<lambda>r. if ID r = ID request
                         then r\<lparr>Status := StatusSending, UpdatedAt := now env, LastError := None\<rparr>
                         else r) (unsend_data (st_db st)))"
  using assms unfolding Process_def fail_with_def
  apply (auto simp add: Let_def split_beta split: option.splits sum.splits if_splits)
  apply (rule exI, rule conjI, rule refl)
  apply (simp add: InsertAPIResponse_effect MarkAsSending_effect MarkAsSending_fst)
  done

subsection \<open>The upstream client's retry loop\<close>

lemma retry_loop_all_fail:
  assumes ctx: "\<forall>k. ctx_done_in_wait env k = None"
    and fail: "\<forall>k. sendRequestOnce env k body = Inl (errs k)"
  shows "retry_loop env cfg body atts lastErr evs =
     (Inl (failed_after cfg (if atts = [] then lastErr else Some (errs (nat (last atts))))),
      evs @ concat (map (round_events cfg) atts))"
proof (induction atts arbitrary: lastErr evs)
  case Nil
  show ?case by simp
next
  case (Cons a atts)
  show ?case
    using ctx fail by (simp add: Cons.IH round_events_def Let_def)
qed


lemma upto_0_3: "[0..3::int] = [0, 1, 2, 3]"
  by (simp add: upto_rec1)




lemma SendRequest_all_fail:
  assumes m: "json_Marshal_request env request = Inr body"
    and ctx: "\<forall>k. ctx_done_in_wait env k = None"
    and fail: "\<forall>k. sendRequestOnce env k body = Inl (errs k)"
  shows "SendRequest env cfg request =
     (Inl (failed_after cfg (if MaxRetries cfg < 0 then None else Some (errs (nat (MaxRetries cfg))))),
      concat (map (round_events cfg) [0..MaxRetries cfg]))"
proof -
  have "[0..MaxRetries cfg] = [] \<longleftrightarrow> MaxRetries cfg < 0" by simp
  moreover have "0 \<le> MaxRetries cfg \<Longrightarrow> last [0..MaxRetries cfg] = MaxRetries cfg"
    by (simp add: upto_rec2)
  ultimately show ?thesis
    using retry_loop_all_fail [OF ctx fail, of cfg "[0..MaxRetries cfg]" None "[]"]
    by (auto simp add: SendRequest_def m)
qed





subsection \<open>Steps 6, 9 and 10 are not fatal\<close>

text \<open>
  Claim C3. In every run in which steps 1 to 5, 7 and 8 succeed, whatever the database
  does at steps 6, 9 and 10: \<open>Process\<close> returns a successful result with the binary
  response and no error; the statements it sent to the database are those of steps 1,
  6, 9 and 10 and no other (so \<open>handleError\<close> did not run: no row was marked failed and
  no retry count was incremented); no row of the request has status failed, and every row that
  remains has the retry count it had.
\<close>

theorem swallowed_storage_errors:
  assumes s1: "db_fault env (UpdateStatus (ID request) StatusSending None) = None"
    and s2: "ValidateBinaryData (BinaryData request) = None"
    and s3: "BinaryToAPIRequest env (ID request) (ClientPort request) (BinaryData request)
               = Inr apiRequest"
    and s4: "SendRequest env cfg apiRequest = (Inr apiResponse, evs)"
    and s5: "ValidateAPIResponse (Some apiResponse) = None"
    and s7: "APIResponseToBinary env (Some apiResponse) = Inr binaryResponse"
    and s8: "sendToClient env (st_cm st) (ClientPort request) binaryResponse = (None, cm1)"
  shows "fst (Process env cfg st request) =
           \<lparr>res_RequestID = ID request, res_ClientPort = ClientPort request, Success = True,
            Response = binaryResponse, Error = None\<rparr>
     \<and> executed (st_db (snd (Process env cfg st request))) =
         executed (st_db st) @
           [UpdateStatus (ID request) StatusSending None,
            InsertResponse (ID request) (pl_StatusCode apiResponse) (pl_Message apiResponse),
            UpdateStatus (ID request) StatusComplete None,
            DeleteRequest (ID request)]
     \<and> (\<forall>r \<in> set (unsend_data (st_db (snd (Process env cfg st request)))).
           ID r = ID request \<longrightarrow> Status r \<noteq> StatusFailed)
     \<and> (\<forall>r \<in> set (unsend_data (st_db (snd (Process env cfg st request)))).
           \<exists>r0 \<in> set (unsend_data (st_db st)). ID r0 = ID r \<and> RetryCount r0 = RetryCount r)"
proof -
  note path = Process_success_path [OF s1 s2 s3 s4 s5 s7 s8]
  have ne: "StatusSending \<noteq> StatusFailed" "StatusComplete \<noteq> StatusFailed"
    by (simp_all add: StatusSending_def StatusFailed_def StatusComplete_def)
  have r: "fst (Process env cfg st request) =
           \<lparr>res_RequestID = ID request, res_ClientPort = ClientPort request, Success = True,
            Response = binaryResponse, Error = None\<rparr>"
    by (simp add: path)
  have e: "executed (st_db (snd (Process env cfg st request))) =
         executed (st_db st) @
           [UpdateStatus (ID request) StatusSending None,
            InsertResponse (ID request) (pl_StatusCode apiResponse) (pl_Message apiResponse),
            UpdateStatus (ID request) StatusComplete None,
            DeleteRequest (ID request)]"
    by (simp add: path DeleteProcessedRequest_effect MarkAsComplete_effect InsertAPIResponse_effect
        MarkAsSending_effect)
  have f: "\<forall>r \<in> set (unsend_data (st_db (snd (Process env cfg st request)))).
           ID r = ID request \<longrightarrow> Status r \<noteq> StatusFailed"
    using ne
    by (auto simp add: path DeleteProcessedRequest_effect MarkAsComplete_effect
        InsertAPIResponse_effect MarkAsSending_effect s1 split: if_splits)
  have c: "\<forall>r \<in> set (unsend_data (st_db (snd (Process env cfg st request)))).
           \<exists>r0 \<in> set (unsend_data (st_db st)). ID r0 = ID r \<and> RetryCount r0 = RetryCount r"
    by (auto simp add: path DeleteProcessedRequest_effect MarkAsComplete_effect
        InsertAPIResponse_effect MarkAsSending_effect s1 split: if_splits)
  from r e f c show ?thesis by blast
qed

subsection \<open>The concrete runs, step by step\<close>

lemma run_validate: "ValidateBinaryData (BinaryData pending_row) = None"
  by (simp add: ValidateBinaryData_def pending_row_def)

lemma run_transform:
  "BinaryToAPIRequest (env_with f h) (ID pending_row) (ClientPort pending_row)
     (BinaryData pending_row) = Inr ok_request"
  by (simp add: BinaryToAPIRequest_def parseBinaryData_def pending_row_def env_with_def
      ok_request_def itoa_def digits.simps)

lemma run_send_ok:
  "SendRequest (env_with f ok_exchange) default_api_config ok_request
     = (Inr ok_payload, [Attempt 0])"
  by (simp add: SendRequest_def sendRequestOnce_def env_with_def ok_exchange_def
      default_api_config_def upto_0_3)

lemma run_valid_reply: "ValidateAPIResponse (Some ok_payload) = None"
  by (simp add: ValidateAPIResponse_def ok_payload_def)

lemma marshal_with_length_layout:
  assumes "json_Marshal_payload env r = Inr jsonData"
  shows "marshal_with_length env r =
    Inr (ucast (drop_bit 24 (of_nat (length jsonData) :: uint32))
         # ucast (drop_bit 16 (of_nat (length jsonData) :: uint32))
         # ucast (drop_bit 8 (of_nat (length jsonData) :: uint32))
         # ucast (of_nat (length jsonData) :: uint32) # jsonData)"
  using assms
  by (simp add: marshal_with_length_def Let_def PutUint32_def copy_into_def eval_nat_numeral)

lemma run_to_binary:
  "APIResponseToBinary (env_with f h) (Some ok_payload) = Inr [0, 0, 0, 2, 0x7B, 0x7D]"
proof -
  have m: "json_Marshal_payload (env_with f h) ok_payload = Inr [0x7B, 0x7D]"
    by (simp add: env_with_def)
  have "pl_Data ok_payload = None" by (simp add: ok_payload_def)
  then show ?thesis
    by (simp add: APIResponseToBinary_def encodeToBinary_def marshal_with_length_layout [OF m])
qed

lemma run_deliver:
  "sendToClient (env_with f h) (st_cm st_one) (ClientPort pending_row) [0, 0, 0, 2, 0x7B, 0x7D]
     = (None, snd (sendToClient (env_with f h) (st_cm st_one) (ClientPort pending_row)
                     [0, 0, 0, 2, 0x7B, 0x7D]))"
  by (simp add: sendToClient_def EncodeMessage_layout MaxMessageSize_def SendData_def
      GetConnection_def st_one_def one_client_def Register_def NewConnectionManager_def
      pending_row_def env_with_def Let_def)

lemma cleanup_faults_sending:
  "db_fault cleanup_fails_env (UpdateStatus (ID pending_row) StatusSending None) = None"
  by (simp add: cleanup_fails_env_def env_with_def cleanup_faults_def StatusSending_def
      StatusComplete_def)

lemmas cleanup_transform =
  run_transform [of cleanup_faults ok_exchange, folded cleanup_fails_env_def]

lemmas cleanup_send = run_send_ok [of cleanup_faults, folded cleanup_fails_env_def]

lemmas cleanup_to_binary =
  run_to_binary [of cleanup_faults ok_exchange, folded cleanup_fails_env_def]

lemmas cleanup_deliver =
  run_deliver [of cleanup_faults ok_exchange, folded cleanup_fails_env_def]

lemma cleanup_run:
  "Process cleanup_fails_env default_api_config st_one pending_row =
    (\<lparr>res_RequestID = 42, res_ClientPort = 54321, Success = True,
      Response = [0, 0, 0, 2, 0x7B, 0x7D], Error = None\<rparr>,
     \<lparr>st_db = \<lparr>unsend_data = [pending_row\<lparr>Status := StatusSending, UpdatedAt := 1000\<rparr>],
               api_responses = [], next_id = 43,
               executed = [UpdateStatus 42 StatusSending None, InsertResponse 42 200 ''hello'',
                           UpdateStatus 42 StatusComplete None, DeleteRequest 42]\<rparr>,
      st_cm = snd (sendToClient cleanup_fails_env (st_cm st_one) 54321 [0, 0, 0, 2, 0x7B, 0x7D]),
      st_api = [Attempt 0]\<rparr>)"
proof -
  note path = Process_success_path [OF cleanup_faults_sending run_validate cleanup_transform
      cleanup_send run_valid_reply cleanup_to_binary cleanup_deliver]
  have f: "db_fault cleanup_fails_env = cleanup_faults" "now cleanup_fails_env = 1000"
    by (simp_all add: cleanup_fails_env_def env_with_def)
  show ?thesis
    unfolding path
    by (simp add: DeleteProcessedRequest_def MarkAsComplete_def MarkAsSending_def
        UpdateRequestStatus_def InsertAPIResponse_def exec_def Let_def f cleanup_faults_def
        st_one_def pending_row_def ok_payload_def StatusSending_def StatusComplete_def
        StatusPending_def)
qed

theorem swallowed_storage_errors_witness:
  "db_fault cleanup_fails_env (InsertResponse 42 200 ''hello'') = Some storage_error
   \<and> db_fault cleanup_fails_env (UpdateStatus 42 StatusComplete None) = Some storage_error
   \<and> db_fault cleanup_fails_env (DeleteRequest 42) = Some storage_error
   \<and> fst (Process cleanup_fails_env default_api_config st_one pending_row) =
       \<lparr>res_RequestID = 42, res_ClientPort = 54321, Success = True,
        Response = [0, 0, 0, 2, 0x7B, 0x7D], Error = None\<rparr>
   \<and> executed (st_db (snd (Process cleanup_fails_env default_api_config st_one pending_row))) =
       [UpdateStatus 42 StatusSending None, InsertResponse 42 200 ''hello'',
        UpdateStatus 42 StatusComplete None, DeleteRequest 42]
   \<and> map RetryCount
        (unsend_data (st_db (snd (Process cleanup_fails_env default_api_config st_one pending_row))))
       = [0]"
proof -
  note inst = swallowed_storage_errors [OF cleanup_faults_sending run_validate cleanup_transform
      cleanup_send run_valid_reply cleanup_to_binary cleanup_deliver]
  have f: "db_fault cleanup_fails_env (InsertResponse 42 200 ''hello'') = Some storage_error
   \<and> db_fault cleanup_fails_env (UpdateStatus 42 StatusComplete None) = Some storage_error
   \<and> db_fault cleanup_fails_env (DeleteRequest 42) = Some storage_error"
    by (simp add: cleanup_fails_env_def env_with_def cleanup_faults_def)
  have r: "map RetryCount
        (unsend_data (st_db (snd (Process cleanup_fails_env default_api_config st_one pending_row))))
       = [0]"
    unfolding cleanup_run by (simp add: pending_row_def)
  from inst f r show ?thesis
    by (simp add: pending_row_def st_one_def ok_payload_def)
qed


subsection \<open>An upstream outage\<close>


lemma int64_range: "- (2 ^ 63) \<le> int64 x \<and> int64 x < 2 ^ 63"
  by (simp add: int64_def)







lemma outage_marshal: "json_Marshal_request outage_env ok_request = Inr ''request 42''"
  by (simp add: outage_env_def env_with_def ok_request_def)

lemma outage_ctx: "\<forall>k. ctx_done_in_wait outage_env k = None"
  by (simp add: outage_env_def env_with_def)

lemma outage_attempts:
  "\<forall>k. sendRequestOnce outage_env k ''request 42'' =
         Inl ((\<lambda>k. ErrorString ''API returned error status 503: Service Unavailable'') k)"
  by (simp add: sendRequestOnce_def outage_env_def env_with_def unavailable_def itoa_def
      digits.simps)

lemma outage_no_fault: "db_fault outage_env stmt = None"
  by (simp add: outage_env_def env_with_def no_fault_def)

lemmas outage_transform = run_transform [of no_fault unavailable, folded outage_env_def]

lemma outage_error_text:
  "ErrorText (failed_after default_api_config
     (Some (ErrorString ''API returned error status 503: Service Unavailable'')))
   = ''API request failed after 4 attempts: API returned error status 503: Service Unavailable''"
  by (simp add: failed_after_def default_api_config_def itoa_def digits.simps)














subsection \<open>The status of the row when the processor returns\<close>

text \<open>
  Claim C2, as the code has it. Suppose the writes of the failure path succeed (the mark
  as failed, with any error text, and the increment of the retry count), and at least
  one of the writes of steps 9 and 10 succeeds (the mark as complete or the delete).
  Then when \<open>Process\<close> returns no row of the request has status sending. If the run
  failed, at whatever step, the result carries an error and every row of the request is
  failed, carries the text of that error as \<open>last_error\<close> and has its retry count one
  higher; the other rows are unchanged. If the run succeeded, the rows of the request
  are deleted when the delete succeeded, and marked complete otherwise.
\<close>

theorem no_row_left_sending:
  assumes fw1: "\<forall>msg. db_fault env (UpdateStatus (ID request) StatusFailed (Some msg)) = None"
    and fw2: "db_fault env (IncrementRetry (ID request)) = None"
    and sw: "db_fault env (UpdateStatus (ID request) StatusComplete None) = None
             \<or> db_fault env (DeleteRequest (ID request)) = None"
  shows "(\<forall>r \<in> set (unsend_data (st_db (snd (Process env cfg st request)))).
            ID r = ID request \<longrightarrow> Status r \<noteq> StatusSending)
     \<and> (\<not> Success (fst (Process env cfg st request)) \<longrightarrow>
          (\<exists>err. Error (fst (Process env cfg st request)) = Some err
             \<and> unsend_data (st_db (snd (Process env cfg st request))) =
                 map (\<lambda>r. if ID r = ID request
                           then r\<lparr>Status := StatusFailed, UpdatedAt := now env,
                                  LastError := Some (ErrorText err),
                                  RetryCount := RetryCount r + 1\<rparr>
                           else r) (unsend_data (st_db st))))
     \<and> (Success (fst (Process env cfg st request)) \<longrightarrow>
          Error (fst (Process env cfg st request)) = None
          \<and> unsend_data (st_db (snd (Process env cfg st request))) =
              (if db_fault env (DeleteRequest (ID request)) = None
               then filter (\<lambda>r. ID r \<noteq> ID request) (unsend_data (st_db st))
               else map (\<lambda>r. if ID r = ID request
                              then r\<lparr>Status := StatusComplete, UpdatedAt := now env,
                                     LastError := None\<rparr>
                              else r) (unsend_data (st_db st))))"
proof -
  let ?final = "unsend_data (st_db (snd (Process env cfg st request)))"
  let ?orig = "unsend_data (st_db st)"
  have ne: "StatusFailed \<noteq> StatusSending" "StatusComplete \<noteq> StatusSending"
    by (simp_all add: StatusSending_def StatusFailed_def StatusComplete_def)
  have failure: "\<exists>err. Error (fst (Process env cfg st request)) = Some err
             \<and> ?final =
                 map (\<lambda>r. if ID r = ID request
                           then r\<lparr>Status := StatusFailed, UpdatedAt := now env,
                                  LastError := Some (ErrorText err),
                                  RetryCount := RetryCount r + 1\<rparr>
                           else r) ?orig"
    if "\<not> Success (fst (Process env cfg st request))"
  proof -
    from Process_failure_form [OF that] obtain err db_mid where
      e: "Error (fst (Process env cfg st request)) = Some err"
      and d: "st_db (snd (Process env cfg st request)) = handleError env db_mid (ID request) err"
      and m: "unsend_data db_mid = ?orig
         \<or> unsend_data db_mid =
             map (\<lambda>r. if ID r = ID request
                       then r\<lparr>Status := StatusSending, UpdatedAt := now env, LastError := None\<rparr>
                       else r) ?orig"
      by blast
    have "unsend_data (handleError env db_mid (ID request) err) =
       map (\<lambda>r. if ID r = ID request
               then r\<lparr>Status := StatusFailed, UpdatedAt := now env,
                      LastError := Some (ErrorText err), RetryCount := RetryCount r + 1\<rparr>
               else r) (unsend_data db_mid)"
      using fw1 fw2 by (simp add: handleError_table)
    with m have "unsend_data (handleError env db_mid (ID request) err) =
       map (\<lambda>r. if ID r = ID request
               then r\<lparr>Status := StatusFailed, UpdatedAt := now env,
                      LastError := Some (ErrorText err), RetryCount := RetryCount r + 1\<rparr>
               else r) ?orig"
      by (auto simp add: fail_after_mark simp del: map_map)
    with e d show ?thesis by simp
  qed
  have success: "Error (fst (Process env cfg st request)) = None
          \<and> ?final =
              (if db_fault env (DeleteRequest (ID request)) = None
               then filter (\<lambda>r. ID r \<noteq> ID request) ?orig
               else map (\<lambda>r. if ID r = ID request
                              then r\<lparr>Status := StatusComplete, UpdatedAt := now env,
                                     LastError := None\<rparr>
                              else r) ?orig)"
    if "Success (fst (Process env cfg st request))"
  proof -
    from Process_success_form [OF that] obtain db3 where
      e: "Error (fst (Process env cfg st request)) = None"
      and d: "st_db (snd (Process env cfg st request)) =
                 snd (DeleteProcessedRequest env (snd (MarkAsComplete env db3 (ID request)))
                        (ID request))"
      and m: "unsend_data db3 =
               map (\<lambda>r. if ID r = ID request
                         then r\<lparr>Status := StatusSending, UpdatedAt := now env, LastError := None\<rparr>
                         else r) ?orig"
      by blast
    show ?thesis
      using sw
      by (auto simp add: e d m DeleteProcessedRequest_effect MarkAsComplete_effect
          filter_other_ids mark_twice simp del: map_map)
  qed
  have never: "\<forall>r \<in> set ?final. ID r = ID request \<longrightarrow> Status r \<noteq> StatusSending"
  proof (cases "Success (fst (Process env cfg st request))")
    case True
    from success [OF True] show ?thesis using ne by (auto split: if_splits)
  next
    case False
    from failure [OF False] show ?thesis using ne by (auto split: if_splits)
  qed
  from never failure success show ?thesis by blast
qed

lemma outage_send:
  "SendRequest outage_env default_api_config ok_request =
     (Inl (failed_after default_api_config
             (Some (ErrorString ''API returned error status 503: Service Unavailable''))),
      concat (map (round_events default_api_config) [0..3]))"
  using SendRequest_all_fail [OF outage_marshal outage_ctx outage_attempts, of default_api_config]
  by (simp add: default_api_config_def)

lemma outage_run_result:
  "fst (Process outage_env default_api_config st_one pending_row) =
     \<lparr>res_RequestID = 42, res_ClientPort = 54321, Success = False, Response = [],
      Error = Some (WrapError ''API request failed''
                (failed_after default_api_config
                   (Some (ErrorString ''API returned error status 503: Service Unavailable''))))\<rparr>"
  unfolding Process_api_failure_path [OF outage_no_fault run_validate outage_transform outage_send]
  by (simp add: pending_row_def)

lemmas quiet_transform = run_transform [of no_fault ok_exchange, folded quiet_env_def]

lemmas quiet_send = run_send_ok [of no_fault, folded quiet_env_def]

lemmas quiet_to_binary = run_to_binary [of no_fault ok_exchange, folded quiet_env_def]

lemmas quiet_deliver = run_deliver [of no_fault ok_exchange, folded quiet_env_def]

lemma quiet_run_result: "Success (fst (Process quiet_env default_api_config st_one pending_row))"
  unfolding Process_success_path [OF quiet_env_no_fault run_validate quiet_transform quiet_send
      run_valid_reply quiet_to_binary quiet_deliver]
  by simp

theorem no_row_left_sending_witness:
  "\<not> Success (fst (Process outage_env default_api_config st_one pending_row))
   \<and> unsend_data (st_db (snd (Process outage_env default_api_config st_one pending_row))) =
       [pending_row\<lparr>Status := StatusFailed, UpdatedAt := 1000,
          LastError := Some ''API request failed: API request failed after 4 attempts: API returned error status 503: Service Unavailable'',
          RetryCount := 1\<rparr>]
   \<and> Success (fst (Process quiet_env default_api_config st_one pending_row))
   \<and> unsend_data (st_db (snd (Process quiet_env default_api_config st_one pending_row))) = []"
proof -
  have i: "ID pending_row = 42" "unsend_data (st_db st_one) = [pending_row]"
    "RetryCount pending_row = 0" "now outage_env = 1000"
    by (simp_all add: pending_row_def st_one_def outage_env_def env_with_def)
  have a: "\<not> Success (fst (Process outage_env default_api_config st_one pending_row))"
    by (simp add: outage_run_result)
  from no_row_left_sending [of outage_env pending_row default_api_config st_one] a
  have "unsend_data (st_db (snd (Process outage_env default_api_config st_one pending_row))) =
       [pending_row\<lparr>Status := StatusFailed, UpdatedAt := 1000,
          LastError := Some ''API request failed: API request failed after 4 attempts: API returned error status 503: Service Unavailable'',
          RetryCount := 1\<rparr>]"
    by (simp add: outage_no_fault outage_run_result outage_error_text i)
  moreover
  from no_row_left_sending [of quiet_env pending_row default_api_config st_one] quiet_run_result
  have "unsend_data (st_db (snd (Process quiet_env default_api_config st_one pending_row))) = []"
    by (simp add: quiet_env_no_fault i)
  ultimately show ?thesis using a quiet_run_result by simp
qed

text \<open>
  Whenever a run succeeds and the writes of steps 9 and 10 both fail, the rows of the
  request are left with status sending.
\<close>

lemma Process_cleanup_fails:
  assumes "Success (fst (Process env cfg st request))"
    and "db_fault env (UpdateStatus (ID request) StatusComplete None) \<noteq> None"
    and "db_fault env (DeleteRequest (ID request)) \<noteq> None"
  shows "unsend_data (st_db (snd (Process env cfg st request))) =
           map (\<lambda>r. if ID r = ID request
                     then r\<lparr>Status := StatusSending, UpdatedAt := now env, LastError := None\<rparr>
                     else r) (unsend_data (st_db st))"
proof -
  from Process_success_form [OF assms(1)] obtain db3 where
    d: "st_db (snd (Process env cfg st request)) =
          snd (DeleteProcessedRequest env (snd (MarkAsComplete env db3 (ID request))) (ID request))"
    and m: "unsend_data db3 =
               map (\<lambda>r. if ID r = ID request
                         then r\<lparr>Status := StatusSending, UpdatedAt := now env, LastError := None\<rparr>
                         else r) (unsend_data (st_db st))"
    by blast
  from assms(2) obtain e1 where
    e1: "db_fault env (UpdateStatus (ID request) StatusComplete None) = Some e1"
    by auto
  from assms(3) obtain e2 where e2: "db_fault env (DeleteRequest (ID request)) = Some e2"
    by auto
  show ?thesis
    by (simp add: d m e1 e2 DeleteProcessedRequest_effect MarkAsComplete_effect del: map_map)
qed

text \<open>
  Claim C2, as the specification states it, fails. In \<open>cleanup_fails_env\<close> the writes of
  the failure path would succeed, and those of steps 6, 9 and 10 fail. The run of the
  happy-path job succeeds, no statement of the failure path is sent, and when \<open>Process\<close>
  returns the row still has status sending.
\<close>

theorem row_left_sending_after_success:
  "db_fault cleanup_fails_env (IncrementRetry 42) = None
   \<and> db_fault cleanup_fails_env (UpdateStatus 42 StatusFailed (Some ''any error'')) = None
   \<and> Success (fst (Process cleanup_fails_env default_api_config st_one pending_row))
   \<and> executed (st_db (snd (Process cleanup_fails_env default_api_config st_one pending_row))) =
       [UpdateStatus 42 StatusSending None, InsertResponse 42 200 ''hello'',
        UpdateStatus 42 StatusComplete None, DeleteRequest 42]
   \<and> map ID
        (unsend_data (st_db (snd (Process cleanup_fails_env default_api_config st_one pending_row))))
       = [ID pending_row]
   \<and> map Status
        (unsend_data (st_db (snd (Process cleanup_fails_env default_api_config st_one pending_row))))
       = [StatusSending]"
proof -
  have f: "db_fault cleanup_fails_env (IncrementRetry 42) = None
   \<and> db_fault cleanup_fails_env (UpdateStatus 42 StatusFailed (Some ''any error'')) = None"
    by (simp add: cleanup_fails_env_def env_with_def cleanup_faults_def StatusFailed_def
        StatusComplete_def)
  show ?thesis
    unfolding cleanup_run using f by simp
qed

end
